theory Spec2Isabelle
  imports Complex_Main
begin

section \<open>Python values, exceptions and the effects of the bridge\<close>

text \<open>
  The bridge (\<^verbatim>\<open>drission_bridge.py\<close>) and its helpers (\<^verbatim>\<open>stealth_helpers.py\<close>) work on
  the values \<^verbatim>\<open>json.loads\<close> produces. A Python \<^verbatim>\<open>str\<close> is a \<open>string\<close>, one \<open>char\<close> per
  character; a number of a request, of the configuration or of a delay is a \<open>real\<close> when it
  is a \<^verbatim>\<open>float\<close> (no rounding error; the floats of the mouse path, which can overflow,
  have a type of their own); a \<^verbatim>\<open>dict\<close> is an association list read with \<open>map_of\<close>.
  The objects of the browser library (the page, an element, a rectangle, the bytes of a
  screenshot) are opaque: the model names each of them by the value the driver returned.
\<close>

datatype json =
    JNull
  | JBool bool
  | JInt int
  | JFloat real
  | JStr string
  | JArr "json list"
  | JObj "(string \<times> json) list"

datatype exn_class =
    TypeError | ValueError | RuntimeError | AttributeError | IndexError | KeyError
  | ZeroDivisionError | OverflowError | JSONDecodeError | DriverError

text \<open>An exception: its class and its message, the text \<^verbatim>\<open>str(e)\<close> gives.\<close>

datatype exn = Exn exn_class string

fun exn_class_of :: "exn \<Rightarrow> exn_class" where
  "exn_class_of (Exn c m) = c"

fun exn_str :: "exn \<Rightarrow> string" where
  "exn_str (Exn c m) = m"

text \<open>Truthiness, as \<^verbatim>\<open>if x:\<close> and \<^verbatim>\<open>not x\<close> read it.\<close>

fun py_truthy :: "json \<Rightarrow> bool" where
  "py_truthy JNull = False"
| "py_truthy (JBool b) = b"
| "py_truthy (JInt i) = (i \<noteq> 0)"
| "py_truthy (JFloat r) = (r \<noteq> 0)"
| "py_truthy (JStr s) = (s \<noteq> [])"
| "py_truthy (JArr xs) = (xs \<noteq> [])"
| "py_truthy (JObj kv) = (kv \<noteq> [])"

fun py_type_name :: "json \<Rightarrow> string" where
  "py_type_name JNull = ''NoneType''"
| "py_type_name (JBool b) = ''bool''"
| "py_type_name (JInt i) = ''int''"
| "py_type_name (JFloat r) = ''float''"
| "py_type_name (JStr s) = ''str''"
| "py_type_name (JArr xs) = ''list''"
| "py_type_name (JObj kv) = ''dict''"

definition no_attribute :: "json \<Rightarrow> string \<Rightarrow> exn" where
  "no_attribute j a =
     Exn AttributeError
       ([CHR 0x27] @ py_type_name j @ [CHR 0x27] @ '' object has no attribute '' @
        [CHR 0x27] @ a @ [CHR 0x27])"

text \<open>\<^verbatim>\<open>d.get(k, default)\<close>: only a dict has the method.\<close>

fun py_get :: "json \<Rightarrow> string \<Rightarrow> json \<Rightarrow> exn + json" where
  "py_get (JObj kv) k d = Inr (case map_of kv k of None \<Rightarrow> d | Some v \<Rightarrow> v)"
| "py_get j k d = Inl (no_attribute j ''get'')"

text \<open>The number a value stands for in arithmetic (\<^verbatim>\<open>bool\<close> is a subclass of \<^verbatim>\<open>int\<close>).\<close>

fun py_num :: "json \<Rightarrow> real option" where
  "py_num (JBool b) = Some (if b then 1 else 0)"
| "py_num (JInt i) = Some (of_int i)"
| "py_num (JFloat r) = Some r"
| "py_num j = None"

text \<open>Truncation towards zero, as \<^verbatim>\<open>int(x)\<close> does on a float.\<close>

definition trunc :: "real \<Rightarrow> int" where
  "trunc r = (if 0 \<le> r then \<lfloor>r\<rfloor> else \<lceil>r\<rceil>)"

text \<open>\<^verbatim>\<open>round(x)\<close> on a float: to the nearest integer, a tie to the even one.\<close>

definition py_round :: "real \<Rightarrow> int" where
  "py_round x =
     (let f = \<lfloor>x\<rfloor>; d = x - of_int f
      in if d < 1 / 2 then f else if 1 / 2 < d then f + 1 else if even f then f else f + 1)"

text \<open>
  What the bridge needs from outside the repository: the browser library, the random
  generator, and the Python built-ins whose result is text. The driver answers a call from
  the history of effects so far; \<open>rnd\<close> is the stream of raw draws of the process-wide
  generator. \<open>int_of_str\<close> is \<^verbatim>\<open>int(s)\<close> on a string (\<open>None\<close>: \<^verbatim>\<open>ValueError\<close>),
  \<open>repr\<close> the text of a value that is not a string inside an f-string or \<^verbatim>\<open>str()\<close>,
  \<open>b64encode\<close> is \<^verbatim>\<open>base64.b64encode(b).decode("ascii")\<close>, \<open>format_exc\<close> is
  \<^verbatim>\<open>traceback.format_exc()\<close> while the exception is being handled.
\<close>

datatype event = Call string "json list" | Sleep real

record env =
  drv :: "event list \<Rightarrow> string \<Rightarrow> json list \<Rightarrow> exn + json"
  rnd :: "nat \<Rightarrow> nat"
  drission_installed :: bool
  json_loads :: "string \<Rightarrow> exn + json"
  int_of_str :: "string \<Rightarrow> int option"
  repr :: "json \<Rightarrow> string"
  b64encode :: "json \<Rightarrow> exn + string"
  format_exc :: "exn \<Rightarrow> string"

text \<open>
  The state of the process: the two globals \<^verbatim>\<open>_page\<close> and \<^verbatim>\<open>_config\<close>, the effects
  performed so far (driver calls and sleeps, oldest first), the number of random draws
  consumed, and the lines written to standard output (each as the value that is dumped).
\<close>

record world =
  page :: "json option"
  config :: json
  trace :: "event list"
  rcount :: nat
  out :: "json list"

type_synonym 'a act = "world \<Rightarrow> (exn + 'a) \<times> world"

definition ret :: "'a \<Rightarrow> 'a act" where
  "ret x w = (Inr x, w)"

definition raise :: "exn \<Rightarrow> 'a act" where
  "raise x w = (Inl x, w)"

definition lift :: "exn + 'a \<Rightarrow> 'a act" where
  "lift r w = (r, w)"

definition bnd :: "'a act \<Rightarrow> ('a \<Rightarrow> 'b act) \<Rightarrow> 'b act" where
  "bnd m f w = (case m w of (Inl x, w1) \<Rightarrow> (Inl x, w1) | (Inr v, w1) \<Rightarrow> f v w1)"

text \<open>\<^verbatim>\<open>try: m  except Exception: pass\<close>\<close>

definition swallow :: "'a act \<Rightarrow> unit act" where
  "swallow m w = (Inr (), snd (m w))"

text \<open>A call into the browser library: recorded, and answered by the driver.\<close>

definition call :: "env \<Rightarrow> string \<Rightarrow> json list \<Rightarrow> json act" where
  "call e name args w = (drv e (trace w) name args, w\<lparr>trace := trace w @ [Call name args]\<rparr>)"

text \<open>
  A method or attribute of an object variable that may hold \<^verbatim>\<open>None\<close> (the global
  \<^verbatim>\<open>_page\<close>, or the \<^verbatim>\<open>page\<close> argument of a helper): on \<^verbatim>\<open>None\<close> the attribute access
  raises and nothing is called.
\<close>

definition method_call :: "env \<Rightarrow> json option \<Rightarrow> string \<Rightarrow> json list \<Rightarrow> json act" where
  "method_call e obj name args w =
     (case obj of
        None \<Rightarrow> (Inl (no_attribute JNull (takeWhile (\<lambda>c. c \<noteq> CHR ''.'') name)), w)
      | Some p \<Rightarrow> call e (''page.'' @ name) (p # args) w)"

definition page_call :: "env \<Rightarrow> string \<Rightarrow> json list \<Rightarrow> json act" where
  "page_call e name args w = method_call e (page w) name args w"

text \<open>\<^verbatim>\<open>time.sleep(d)\<close>\<close>

definition py_sleep :: "real \<Rightarrow> unit act" where
  "py_sleep d w =
     (if d < 0 then (Inl (Exn ValueError ''sleep length must be non-negative''), w)
      else (Inr (), w\<lparr>trace := trace w @ [Sleep d]\<rparr>))"

text \<open>\<^verbatim>\<open>random.random()\<close>: a 53-bit draw scaled into [0, 1).\<close>

definition py_random :: "env \<Rightarrow> real act" where
  "py_random e w = (Inr (real (rnd e (rcount w) mod 2 ^ 53) / 2 ^ 53), w\<lparr>rcount := Suc (rcount w)\<rparr>)"

text \<open>\<^verbatim>\<open>random.uniform(a, b)\<close> is \<^verbatim>\<open>a + (b - a) * random()\<close>.\<close>

definition uniform :: "env \<Rightarrow> real \<Rightarrow> real \<Rightarrow> real act" where
  "uniform e a b = bnd (py_random e) (\<lambda>r. ret (a + (b - a) * r))"

text \<open>A uniform integer below \<open>n\<close>, for \<^verbatim>\<open>randint\<close> and \<^verbatim>\<open>choice\<close>.\<close>

definition randbelow :: "env \<Rightarrow> nat \<Rightarrow> nat act" where
  "randbelow e n w = (Inr (rnd e (rcount w) mod n), w\<lparr>rcount := Suc (rcount w)\<rparr>)"

definition randint :: "env \<Rightarrow> int \<Rightarrow> int \<Rightarrow> int act" where
  "randint e a b =
     (if b < a then raise (Exn ValueError ''empty range for randrange()'')
      else bnd (randbelow e (nat (b - a + 1))) (\<lambda>k. ret (a + int k)))"

section \<open>Floats that can overflow\<close>

text \<open>
  The arithmetic of \<^verbatim>\<open>bezier_curve_points\<close> runs on coordinates of any size, so its floats
  are modelled with their special values: a finite float, the two infinities and NaN. A
  finite result is kept exact (rounding to 53 bits is not modelled); a result whose
  magnitude reaches \<open>float_limit\<close>, the least magnitude that rounds to an infinity,
  overflows to the infinity of its sign.
\<close>

datatype pyfloat = Finite real | PosInf | NegInf | NaN

definition float_limit :: real where
  "float_limit = 2 ^ 1024 - 2 ^ 970"

definition fl :: "real \<Rightarrow> pyfloat" where
  "fl r = (if \<bar>r\<bar> < float_limit then Finite r else if 0 < r then PosInf else NegInf)"

fun fneg :: "pyfloat \<Rightarrow> pyfloat" where
  "fneg (Finite a) = Finite (- a)"
| "fneg PosInf = NegInf"
| "fneg NegInf = PosInf"
| "fneg NaN = NaN"

fun fadd :: "pyfloat \<Rightarrow> pyfloat \<Rightarrow> pyfloat" where
  "fadd (Finite a) (Finite b) = fl (a + b)"
| "fadd NaN y = NaN"
| "fadd x NaN = NaN"
| "fadd PosInf NegInf = NaN"
| "fadd NegInf PosInf = NaN"
| "fadd PosInf y = PosInf"
| "fadd x PosInf = PosInf"
| "fadd NegInf y = NegInf"
| "fadd x NegInf = NegInf"

definition fsub :: "pyfloat \<Rightarrow> pyfloat \<Rightarrow> pyfloat" where
  "fsub x y = fadd x (fneg y)"

fun fmul :: "pyfloat \<Rightarrow> pyfloat \<Rightarrow> pyfloat" where
  "fmul (Finite a) (Finite b) = fl (a * b)"
| "fmul NaN y = NaN"
| "fmul x NaN = NaN"
| "fmul (Finite a) y = (if a = 0 then NaN else if 0 < a then y else fneg y)"
| "fmul x (Finite b) = (if b = 0 then NaN else if 0 < b then x else fneg x)"
| "fmul PosInf y = y"
| "fmul NegInf y = fneg y"

text \<open>\<^verbatim>\<open>a < b\<close>: false whenever a NaN is compared.\<close>

fun fless :: "pyfloat \<Rightarrow> pyfloat \<Rightarrow> bool" where
  "fless (Finite a) (Finite b) = (a < b)"
| "fless NaN y = False"
| "fless x NaN = False"
| "fless x NegInf = False"
| "fless PosInf y = False"
| "fless x y = True"

text \<open>\<^verbatim>\<open>max(a, b)\<close> of two arguments keeps the first unless the second is greater.\<close>

definition py_max :: "pyfloat \<Rightarrow> pyfloat \<Rightarrow> pyfloat" where
  "py_max a b = (if fless a b then b else a)"

text \<open>\<^verbatim>\<open>math.sqrt(x)\<close>\<close>

fun fsqrt :: "pyfloat \<Rightarrow> exn + pyfloat" where
  "fsqrt (Finite a) = (if a < 0 then Inl (Exn ValueError ''math domain error'') else Inr (Finite (sqrt a)))"
| "fsqrt PosInf = Inr PosInf"
| "fsqrt NegInf = Inl (Exn ValueError ''math domain error'')"
| "fsqrt NaN = Inr NaN"

text \<open>\<^verbatim>\<open>int(round(x))\<close>: an infinity and NaN cannot be converted.\<close>

fun fround :: "pyfloat \<Rightarrow> exn + int" where
  "fround (Finite a) = Inr (py_round a)"
| "fround NaN = Inl (Exn ValueError ''cannot convert float NaN to integer'')"
| "fround x = Inl (Exn OverflowError ''cannot convert float infinity to integer'')"

text \<open>\<^verbatim>\<open>float(i)\<close> of an integer\<close>

definition float_of_int :: "int \<Rightarrow> exn + pyfloat" where
  "float_of_int i =
     (if \<bar>real_of_int i\<bar> < float_limit then Inr (Finite (of_int i))
      else Inl (Exn OverflowError ''int too large to convert to float''))"

text \<open>
  \<^verbatim>\<open>random.uniform(a, b)\<close>, that is \<^verbatim>\<open>a + (b - a) * random()\<close>, on bounds that may be
  infinite.
\<close>

definition uniform_float :: "env \<Rightarrow> pyfloat \<Rightarrow> pyfloat \<Rightarrow> pyfloat act" where
  "uniform_float e a b = bnd (py_random e) (\<lambda>r. ret (fadd a (fmul (fsub b a) (Finite r))))"

section \<open>The humanization helpers (stealth_helpers.py)\<close>

text \<open>\<^verbatim>\<open>random_delay(min_ms, max_ms)\<close>; the bounds may come from the configuration.\<close>

definition random_delay :: "env \<Rightarrow> json \<Rightarrow> json \<Rightarrow> unit act" where
  "random_delay e min_ms max_ms =
     (case (py_num min_ms, py_num max_ms) of
        (Some a, Some b) \<Rightarrow> bnd (uniform e a b) (\<lambda>d. py_sleep (d / 1000))
      | _ \<Rightarrow> raise (Exn TypeError ''unsupported operand type(s) for -''))"

text \<open>
  \<^verbatim>\<open>_bezier_point\<close>: the parameter \<open>t\<close> is a quotient \<^verbatim>\<open>i / num_points\<close> between 0 and 1,
  so the four weights are finite; the control values may be anything.
\<close>

definition bezier_point :: "real \<Rightarrow> pyfloat \<Rightarrow> pyfloat \<Rightarrow> pyfloat \<Rightarrow> pyfloat \<Rightarrow> pyfloat" where
  "bezier_point t p0 p1 p2 p3 =
     fadd (fadd (fadd (fmul (Finite ((1 - t) ^ 3)) p0)
                      (fmul (Finite (3 * (1 - t) ^ 2 * t)) p1))
                (fmul (Finite (3 * (1 - t) * t ^ 2)) p2))
          (fmul (Finite (t ^ 3)) p3)"

text \<open>
  The points of the loop, rounded in the order of the source: the first value that is
  not finite raises.
\<close>

fun round_points :: "(pyfloat \<times> pyfloat) list \<Rightarrow> exn + (int \<times> int) list" where
  "round_points [] = Inr []"
| "round_points (p # ps) =
     (case fround (fst p) of
        Inl x \<Rightarrow> Inl x
      | Inr a \<Rightarrow>
          (case fround (snd p) of
             Inl x \<Rightarrow> Inl x
           | Inr b \<Rightarrow>
               (case round_points ps of
                  Inl x \<Rightarrow> Inl x
                | Inr r \<Rightarrow> Inr ((a, b) # r))))"

text \<open>
  \<^verbatim>\<open>bezier_curve_points\<close>: the eight draws for the control points come first, in the
  order of the source; the loop divides by \<^verbatim>\<open>num_points\<close>, so 0 raises, and a negative
  count gives an empty range.
\<close>

definition bezier_curve_points ::
  "env \<Rightarrow> pyfloat \<times> pyfloat \<Rightarrow> pyfloat \<times> pyfloat \<Rightarrow> int \<Rightarrow> (int \<times> int) list act" where
  "bezier_curve_points e start end_pt num_points =
     (case start of (x0, y0) \<Rightarrow> case end_pt of (x3, y3) \<Rightarrow>
        let dx = fsub x3 x0; dy = fsub y3 y0 in
        bnd (lift (fsqrt (fadd (fmul dx dx) (fmul dy dy)))) (\<lambda>dist.
        let spread = py_max (fmul dist (Finite 0.3)) (Finite 30) in
        bnd (uniform e 0.2 0.4) (\<lambda>fx1. bnd (uniform_float e (fneg spread) spread) (\<lambda>nx1.
        bnd (uniform e 0.2 0.4) (\<lambda>fy1. bnd (uniform_float e (fneg spread) spread) (\<lambda>ny1.
        bnd (uniform e 0.6 0.8) (\<lambda>fx2. bnd (uniform_float e (fneg spread) spread) (\<lambda>nx2.
        bnd (uniform e 0.6 0.8) (\<lambda>fy2. bnd (uniform_float e (fneg spread) spread) (\<lambda>ny2.
          let x1 = fadd (fadd x0 (fmul dx (Finite fx1))) nx1;
              y1 = fadd (fadd y0 (fmul dy (Finite fy1))) ny1;
              x2 = fadd (fadd x0 (fmul dx (Finite fx2))) nx2;
              y2 = fadd (fadd y0 (fmul dy (Finite fy2))) ny2
          in
          if num_points = 0 then raise (Exn ZeroDivisionError ''division by zero'')
          else lift (round_points
                 (map (\<lambda>i. let t = of_int i / of_int num_points
                            in (bezier_point t x0 x1 x2 x3, bezier_point t y0 y1 y2 y3))
                      [0..num_points]))))))))))))"

text \<open>
  The body of the loop of \<^verbatim>\<open>bezier_mouse_move\<close> for one point: \<open>True\<close> goes on to
  the next point, \<open>False\<close> is the \<^verbatim>\<open>break\<close>.
\<close>

definition move_pause :: "env \<Rightarrow> unit act" where
  "move_pause e = bnd (uniform e 0.005 0.025) py_sleep"

definition move_step :: "env \<Rightarrow> json option \<Rightarrow> int \<times> int \<Rightarrow> bool act" where
  "move_step e pg p w =
     (let args = [JInt (fst p), JInt (snd p)];
          pause = bnd (move_pause e) (\<lambda>_. ret True)
      in case method_call e pg ''actions.move'' args w of
           (Inr v, w1) \<Rightarrow> pause w1
         | (Inl x, w1) \<Rightarrow>
             (case method_call e pg ''actions.move_to'' args w1 of
                (Inr v, w2) \<Rightarrow> pause w2
              | (Inl y, w2) \<Rightarrow> (Inr False, w2)))"

fun move_loop :: "env \<Rightarrow> json option \<Rightarrow> (int \<times> int) list \<Rightarrow> unit act" where
  "move_loop e pg [] w = (Inr (), w)"
| "move_loop e pg (p # ps) w =
     (case move_step e pg p w of
        (Inr True, w1) \<Rightarrow> move_loop e pg ps w1
      | (Inr False, w1) \<Rightarrow> (Inr (), w1)
      | (Inl x, w1) \<Rightarrow> (Inl x, w1))"

definition bezier_mouse_move :: "env \<Rightarrow> json option \<Rightarrow> int \<times> int \<Rightarrow> int \<times> int \<Rightarrow> unit act" where
  "bezier_mouse_move e pg start end_pt =
     bnd (randint e 15 30) (\<lambda>num_points.
     bnd (lift (float_of_int (fst start))) (\<lambda>sx.
     bnd (lift (float_of_int (snd start))) (\<lambda>sy.
     bnd (lift (float_of_int (fst end_pt))) (\<lambda>ex.
     bnd (lift (float_of_int (snd end_pt))) (\<lambda>ey.
     bnd (bezier_curve_points e (sx, sy) (ex, ey) num_points) (\<lambda>points.
     move_loop e pg points))))))"

text \<open>
  \<^verbatim>\<open>random_scroll_jitter(page, max_delta)\<close>: \<^verbatim>\<open>random.choice([-30, 30])\<close> is the element
  at a uniform index below 2.
\<close>

definition random_scroll_jitter :: "env \<Rightarrow> json option \<Rightarrow> int \<Rightarrow> unit act" where
  "random_scroll_jitter e pg max_delta =
     bnd (randint e (- max_delta) max_delta) (\<lambda>d0.
     bnd (if d0 = 0 then bnd (randbelow e 2) (\<lambda>k. ret (if k = 0 then - 30 else 30))
          else ret d0) (\<lambda>delta.
     bnd (swallow (if 0 < delta then method_call e pg ''scroll.down'' [JInt delta]
                   else method_call e pg ''scroll.up'' [JInt \<bar>delta\<bar>])) (\<lambda>_.
     random_delay e (JInt 100) (JInt 300))))"

text \<open>
  The pause after a typed character: with probability 5% a thinking pause, else the
  per-character delay.
\<close>

definition type_pause :: "env \<Rightarrow> real \<Rightarrow> real \<Rightarrow> unit act" where
  "type_pause e min_char_delay_ms max_char_delay_ms =
     bnd (py_random e) (\<lambda>r.
       if r < 0.05 then bnd (uniform e 0.3 0.8) py_sleep
       else bnd (uniform e (min_char_delay_ms / 1000) (max_char_delay_ms / 1000)) py_sleep)"

text \<open>
  The body of the loop of \<^verbatim>\<open>human_type\<close> for one character: \<^verbatim>\<open>element.input\<close>, on an
  exception \<^verbatim>\<open>element.type\<close>, on a second exception \<^verbatim>\<open>break\<close> (\<open>False\<close>).
\<close>

definition type_step :: "env \<Rightarrow> json \<Rightarrow> json \<Rightarrow> real \<Rightarrow> real \<Rightarrow> bool act" where
  "type_step e element ch min_char_delay_ms max_char_delay_ms w =
     (let pause = bnd (type_pause e min_char_delay_ms max_char_delay_ms) (\<lambda>_. ret True)
      in case call e ''element.input'' [element, ch] w of
           (Inr v, w1) \<Rightarrow> pause w1
         | (Inl x, w1) \<Rightarrow>
             (case call e ''element.type'' [element, ch] w1 of
                (Inr v, w2) \<Rightarrow> pause w2
              | (Inl y, w2) \<Rightarrow> (Inr False, w2)))"

fun type_loop :: "env \<Rightarrow> json \<Rightarrow> json list \<Rightarrow> real \<Rightarrow> real \<Rightarrow> unit act" where
  "type_loop e element [] lo hi w = (Inr (), w)"
| "type_loop e element (ch # chs) lo hi w =
     (case type_step e element ch lo hi w of
        (Inr True, w1) \<Rightarrow> type_loop e element chs lo hi w1
      | (Inr False, w1) \<Rightarrow> (Inr (), w1)
      | (Inl x, w1) \<Rightarrow> (Inl x, w1))"

text \<open>What \<^verbatim>\<open>for c in v\<close> iterates over: characters, items, keys.\<close>

fun py_iter :: "json \<Rightarrow> exn + json list" where
  "py_iter (JStr s) = Inr (map (\<lambda>c. JStr [c]) s)"
| "py_iter (JArr xs) = Inr xs"
| "py_iter (JObj kv) = Inr (map (\<lambda>p. JStr (fst p)) kv)"
| "py_iter j = Inl (Exn TypeError ([CHR 0x27] @ py_type_name j @ [CHR 0x27] @ '' object is not iterable''))"

definition human_type :: "env \<Rightarrow> json \<Rightarrow> json \<Rightarrow> real \<Rightarrow> real \<Rightarrow> unit act" where
  "human_type e element text min_char_delay_ms max_char_delay_ms =
     bnd (lift (py_iter text)) (\<lambda>chars.
       type_loop e element chars min_char_delay_ms max_char_delay_ms)"

text \<open>\<^verbatim>\<open>int(v * k)\<close> for a float constant \<open>k\<close>.\<close>

definition scale_int :: "json \<Rightarrow> real \<Rightarrow> exn + int" where
  "scale_int v k =
     (case py_num v of
        None \<Rightarrow> Inl (Exn TypeError ''unsupported operand type(s) for *'')
      | Some r \<Rightarrow> Inr (trunc (r * k)))"

definition get_random_viewport_point :: "env \<Rightarrow> json \<Rightarrow> json \<Rightarrow> (int \<times> int) act" where
  "get_random_viewport_point e width height =
     bnd (lift (scale_int width 0.1)) (\<lambda>xl. bnd (lift (scale_int width 0.9)) (\<lambda>xh.
     bnd (randint e xl xh) (\<lambda>x.
     bnd (lift (scale_int height 0.1)) (\<lambda>yl. bnd (lift (scale_int height 0.9)) (\<lambda>yh.
     bnd (randint e yl yh) (\<lambda>y. ret (x, y)))))))"

definition add_human_noise_to_coords :: "env \<Rightarrow> int \<Rightarrow> int \<Rightarrow> int \<Rightarrow> (int \<times> int) act" where
  "add_human_noise_to_coords e x y max_offset =
     bnd (randint e (- max_offset) max_offset) (\<lambda>nx0.
     bnd (randint e (- max_offset) max_offset) (\<lambda>ny0.
       ret (max 0 (x + nx0), max 0 (y + ny0))))"

section \<open>The bridge (drission_bridge.py)\<close>

subsection \<open>Responses\<close>

text \<open>
  \<^verbatim>\<open>_send_response\<close> writes one line: the id, and the error when there is one, else the
  result. \<^verbatim>\<open>_send_error\<close> builds the error object, with \<^verbatim>\<open>data\<close> only when given.
\<close>

definition send_response :: "json \<Rightarrow> json \<Rightarrow> json option \<Rightarrow> world \<Rightarrow> world" where
  "send_response msg_id result error w =
     w\<lparr>out := out w @
        [JObj ((''id'', msg_id) #
               (case error of Some er \<Rightarrow> [(''error'', er)] | None \<Rightarrow> [(''result'', result)]))]\<rparr>"

definition send_error :: "json \<Rightarrow> int \<Rightarrow> string \<Rightarrow> json option \<Rightarrow> world \<Rightarrow> world" where
  "send_error msg_id code message data w =
     send_response msg_id JNull
       (Some (JObj ([(''code'', JInt code), (''message'', JStr message)] @
                    (case data of None \<Rightarrow> [] | Some d \<Rightarrow> [(''data'', d)])))) w"

subsection \<open>Python built-ins on values\<close>

text \<open>\<^verbatim>\<open>str(v)\<close>, also inside an f-string.\<close>

definition py_str :: "env \<Rightarrow> json \<Rightarrow> string" where
  "py_str e j = (case j of JStr s \<Rightarrow> s | _ \<Rightarrow> repr e j)"

text \<open>\<^verbatim>\<open>int(v)\<close>\<close>

definition py_int :: "env \<Rightarrow> json \<Rightarrow> exn + int" where
  "py_int e j =
     (case j of
        JInt i \<Rightarrow> Inr i
      | JBool b \<Rightarrow> Inr (if b then 1 else 0)
      | JFloat r \<Rightarrow> Inr (trunc r)
      | JStr s \<Rightarrow>
          (case int_of_str e s of
             Some i \<Rightarrow> Inr i
           | None \<Rightarrow> Inl (Exn ValueError (''invalid literal for int() with base 10: '' @ repr e j)))
      | _ \<Rightarrow> Inl (Exn TypeError (''int() argument must be a string, a bytes-like object or a real number, not '' @
                                 [CHR 0x27] @ py_type_name j @ [CHR 0x27])))"

text \<open>\<^verbatim>\<open>v[i]\<close> for a constant index \<open>i\<close> that is not negative.\<close>

definition py_index :: "json \<Rightarrow> nat \<Rightarrow> exn + json" where
  "py_index j i =
     (case j of
        JArr xs \<Rightarrow> if i < length xs then Inr (xs ! i) else Inl (Exn IndexError ''list index out of range'')
      | JStr s \<Rightarrow> if i < length s then Inr (JStr [s ! i]) else Inl (Exn IndexError ''string index out of range'')
      | JObj kv \<Rightarrow> Inl (Exn KeyError (if i = 0 then ''0'' else ''1''))
      | _ \<Rightarrow> Inl (Exn TypeError ([CHR 0x27] @ py_type_name j @ [CHR 0x27] @ '' object is not subscriptable'')))"

text \<open>\<^verbatim>\<open>except C: h\<close> for one exception class.\<close>

definition catch :: "exn_class \<Rightarrow> 'a act \<Rightarrow> 'a act \<Rightarrow> 'a act" where
  "catch c m h w =
     (case m w of
        (Inl x, w1) \<Rightarrow> if exn_class_of x = c then h w1 else (Inl x, w1)
      | (Inr v, w1) \<Rightarrow> (Inr v, w1))"

text \<open>\<^verbatim>\<open>try: m  except Exception: h\<close>\<close>

definition try_except :: "'a act \<Rightarrow> (exn \<Rightarrow> 'a act) \<Rightarrow> 'a act" where
  "try_except m h w =
     (case m w of
        (Inl x, w1) \<Rightarrow> h x w1
      | (Inr v, w1) \<Rightarrow> (Inr v, w1))"

subsection \<open>The globals\<close>

definition config_get :: "string \<Rightarrow> json \<Rightarrow> json act" where
  "config_get k d w = (py_get (config w) k d, w)"

definition set_config :: "json \<Rightarrow> unit act" where
  "set_config c w = (Inr (), w\<lparr>config := c\<rparr>)"

definition set_page :: "json option \<Rightarrow> unit act" where
  "set_page p w = (Inr (), w\<lparr>page := p\<rparr>)"

definition get_page :: "json option act" where
  "get_page w = (Inr (page w), w)"

definition get_delay_range :: "(json \<times> json) act" where
  "get_delay_range =
     bnd (config_get ''minDelayMs'' (JInt 200)) (\<lambda>min_ms.
     bnd (config_get ''maxDelayMs'' (JInt 800)) (\<lambda>max_ms. ret (min_ms, max_ms)))"

definition apply_human_delay :: "env \<Rightarrow> unit act" where
  "apply_human_delay e = bnd get_delay_range (\<lambda>r. random_delay e (fst r) (snd r))"

subsection \<open>Action handlers\<close>

text \<open>
  One extra launch argument of \<^verbatim>\<open>handle_init\<close>: \<^verbatim>\<open>"=" in arg\<close> needs a container, and
  \<^verbatim>\<open>arg.split("=", 1)\<close> a string.
\<close>

definition set_extra_arg :: "env \<Rightarrow> json \<Rightarrow> json \<Rightarrow> json act" where
  "set_extra_arg e co arg =
     (case arg of
        JStr s \<Rightarrow>
          if CHR ''='' \<in> set s
          then call e ''co.set_argument''
                 [co, JStr (takeWhile (\<lambda>c. c \<noteq> CHR ''='') s),
                      JStr (tl (dropWhile (\<lambda>c. c \<noteq> CHR ''='') s))]
          else call e ''co.set_argument'' [co, arg]
      | JArr xs \<Rightarrow>
          if JStr ''='' \<in> set xs then raise (no_attribute arg ''split'')
          else call e ''co.set_argument'' [co, arg]
      | JObj kv \<Rightarrow>
          if ''='' \<in> set (map fst kv) then raise (no_attribute arg ''split'')
          else call e ''co.set_argument'' [co, arg]
      | _ \<Rightarrow> raise (Exn TypeError (''argument of type '' @ [CHR 0x27] @ py_type_name arg @
                                   [CHR 0x27] @ '' is not iterable'')))"

fun extra_args_loop :: "env \<Rightarrow> json \<Rightarrow> json list \<Rightarrow> unit act" where
  "extra_args_loop e co [] w = (Inr (), w)"
| "extra_args_loop e co (arg # args) w =
     (case set_extra_arg e co arg w of
        (Inl x, w1) \<Rightarrow> (Inl x, w1)
      | (Inr v, w1) \<Rightarrow> extra_args_loop e co args w1)"

text \<open>A statement \<^verbatim>\<open>if c: m\<close> whose value is dropped.\<close>

definition when_truthy :: "json \<Rightarrow> 'a act \<Rightarrow> unit act" where
  "when_truthy c m = (if py_truthy c then bnd m (\<lambda>_. ret ()) else ret ())"

definition handle_init :: "env \<Rightarrow> json \<Rightarrow> json act" where
  "handle_init e params =
     (if \<not> drission_installed e
      then raise (Exn RuntimeError ''DrissionPage is not installed. Run: pip install DrissionPage'')
      else
        bnd (lift (py_get params ''stealth'' (JObj []))) (\<lambda>stealth.
        bnd (set_config stealth) (\<lambda>_.
        bnd (call e ''ChromiumOptions'' []) (\<lambda>co.
        bnd (config_get ''headless'' (JBool False)) (\<lambda>headless.
        bnd (when_truthy headless (call e ''co.headless'' [co])) (\<lambda>_.
        bnd (config_get ''executablePath'' JNull) (\<lambda>path.
        bnd (when_truthy path (call e ''co.set_browser_path'' [co, path])) (\<lambda>_.
        bnd (config_get ''proxy'' JNull) (\<lambda>proxy.
        bnd (when_truthy proxy (call e ''co.set_proxy'' [co, proxy])) (\<lambda>_.
        bnd (config_get ''windowWidth'' (JInt 1920)) (\<lambda>width.
        bnd (config_get ''windowHeight'' (JInt 1080)) (\<lambda>height.
        bnd (call e ''co.set_argument''
               [co, JStr ''--window-size'', JStr (py_str e width @ '','' @ py_str e height)]) (\<lambda>_.
        bnd (config_get ''disableWebdriverFlag'' (JBool True)) (\<lambda>flag.
        bnd (when_truthy flag
               (call e ''co.set_argument''
                  [co, JStr ''--disable-blink-features'', JStr ''AutomationControlled''])) (\<lambda>_.
        bnd (call e ''co.set_argument'' [co, JStr ''--disable-infobars'']) (\<lambda>_.
        bnd (call e ''co.set_argument'' [co, JStr ''--disable-extensions'']) (\<lambda>_.
        bnd (call e ''co.set_argument'' [co, JStr ''--no-first-run'']) (\<lambda>_.
        bnd (call e ''co.set_argument'' [co, JStr ''--no-default-browser-check'']) (\<lambda>_.
        bnd (config_get ''userAgent'' JNull) (\<lambda>agent.
        bnd (when_truthy agent
               (call e ''co.set_argument'' [co, JStr ''--user-agent'', agent])) (\<lambda>_.
        bnd (config_get ''extraArgs'' (JArr [])) (\<lambda>extra.
        bnd (lift (py_iter extra)) (\<lambda>args.
        bnd (extra_args_loop e co args) (\<lambda>_.
        bnd (call e ''ChromiumPage'' [co]) (\<lambda>pg.
        bnd (set_page (Some pg)) (\<lambda>_.
          ret (JObj [(''status'', JStr ''initialized''),
                     (''windowSize'', JObj [(''width'', width), (''height'', height)])])
        ))))))))))))))))))))))))))"

definition handle_navigate :: "env \<Rightarrow> json \<Rightarrow> json act" where
  "handle_navigate e params =
     bnd (lift (py_get params ''url'' (JStr []))) (\<lambda>url.
       if \<not> py_truthy url then raise (Exn ValueError ''url is required'')
       else
         bnd (page_call e ''get'' [url]) (\<lambda>_.
         bnd (apply_human_delay e) (\<lambda>_.
         bnd (page_call e ''url'' []) (\<lambda>u.
         bnd (page_call e ''title'' []) (\<lambda>t.
           ret (JObj [(''url'', u), (''title'', t)]))))))"

text \<open>
  The best-effort mouse movement of \<^verbatim>\<open>handle_click_element\<close>, the body of its
  \<^verbatim>\<open>try\<close>; the caller swallows whatever it raises.
\<close>

definition move_to_element :: "env \<Rightarrow> json \<Rightarrow> unit act" where
  "move_to_element e element =
     bnd (call e ''element.rect'' [element]) (\<lambda>rect.
       if \<not> py_truthy rect then ret ()
       else
         bnd (call e ''rect.midpoint'' [rect]) (\<lambda>m0.
         bnd (lift (py_index m0 0)) (\<lambda>c0.
         bnd (lift (py_int e c0)) (\<lambda>target_x.
         bnd (call e ''rect.midpoint'' [rect]) (\<lambda>m1.
         bnd (lift (py_index m1 1)) (\<lambda>c1.
         bnd (lift (py_int e c1)) (\<lambda>target_y.
         bnd (config_get ''windowWidth'' (JInt 1920)) (\<lambda>width.
         bnd (config_get ''windowHeight'' (JInt 1080)) (\<lambda>height.
         bnd (get_random_viewport_point e width height) (\<lambda>start.
         bnd (add_human_noise_to_coords e target_x target_y 3) (\<lambda>target.
         bnd get_page (\<lambda>pg.
           bezier_mouse_move e pg start target))))))))))))"

definition handle_click_element :: "env \<Rightarrow> json \<Rightarrow> json act" where
  "handle_click_element e params =
     bnd (lift (py_get params ''selector'' (JStr []))) (\<lambda>selector.
       if \<not> py_truthy selector then raise (Exn ValueError ''selector is required'')
       else
         bnd (page_call e ''ele'' [selector]) (\<lambda>element.
           if element = JNull
           then raise (Exn ValueError (''Element not found: '' @ py_str e selector))
           else
             bnd (config_get ''naturalMouseMovement'' (JBool True)) (\<lambda>natural.
             bnd (if py_truthy natural then swallow (move_to_element e element) else ret ()) (\<lambda>_.
             bnd (call e ''element.click'' [element]) (\<lambda>_.
             bnd (apply_human_delay e) (\<lambda>_.
             bnd (call e ''element.text'' [element]) (\<lambda>t.
             bnd (if py_truthy t
                  then bnd (call e ''element.text'' [element])
                         (\<lambda>t2. ret (JStr (take 200 (py_str e t2))))
                  else ret (JStr [])) (\<lambda>description.
               ret (JObj [(''success'', JBool True),
                          (''elementDescription'', description)])))))))))"

definition handle_click_xy :: "env \<Rightarrow> json \<Rightarrow> json act" where
  "handle_click_xy e params =
     bnd (lift (py_get params ''x'' (JInt 0))) (\<lambda>px.
     bnd (lift (py_int e px)) (\<lambda>x.
     bnd (lift (py_get params ''y'' (JInt 0))) (\<lambda>py.
     bnd (lift (py_int e py)) (\<lambda>y.
     bnd (config_get ''naturalMouseMovement'' (JBool True)) (\<lambda>natural.
     bnd (if py_truthy natural
          then
            bnd (config_get ''windowWidth'' (JInt 1920)) (\<lambda>width.
            bnd (config_get ''windowHeight'' (JInt 1080)) (\<lambda>height.
            bnd (get_random_viewport_point e width height) (\<lambda>start.
            bnd (add_human_noise_to_coords e x y 3) (\<lambda>target.
            bnd get_page (\<lambda>pg.
              bezier_mouse_move e pg start target)))))
          else ret ()) (\<lambda>_.
     bnd (page_call e ''actions.click'' [JInt x, JInt y]) (\<lambda>_.
     bnd (apply_human_delay e) (\<lambda>_.
       ret (JObj [(''success'', JBool True), (''x'', JInt x), (''y'', JInt y)])))))))))"

definition handle_type_text :: "env \<Rightarrow> json \<Rightarrow> json act" where
  "handle_type_text e params =
     bnd (lift (py_get params ''selector'' (JStr []))) (\<lambda>selector.
     bnd (lift (py_get params ''text'' (JStr []))) (\<lambda>text.
     bnd (lift (py_get params ''clear'' (JBool True))) (\<lambda>clear.
     bnd (lift (py_get params ''humanTyping'' (JBool True))) (\<lambda>use_human_typing.
       if \<not> py_truthy selector then raise (Exn ValueError ''selector is required'')
       else
         bnd (page_call e ''ele'' [selector]) (\<lambda>element.
           if element = JNull
           then raise (Exn ValueError (''Element not found: '' @ py_str e selector))
           else
             bnd (if py_truthy clear then swallow (call e ''element.clear'' [element])
                  else ret ()) (\<lambda>_.
             bnd (if py_truthy use_human_typing then human_type e element text 50 200
                  else bnd (call e ''element.input'' [element, text]) (\<lambda>_. ret ())) (\<lambda>_.
             bnd (apply_human_delay e) (\<lambda>_.
               ret (JObj [(''success'', JBool True), (''fieldDescription'', selector)])))))))))"

definition handle_screenshot :: "env \<Rightarrow> json \<Rightarrow> json act" where
  "handle_screenshot e params =
     bnd (lift (py_get params ''format'' (JStr ''png''))) (\<lambda>fmt.
     bnd (lift (py_get params ''fullPage'' (JBool False))) (\<lambda>full_page.
     bnd (catch TypeError (page_call e ''get_screenshot'' [fmt, full_page])
            (page_call e ''get_screenshot'' [JBool True])) (\<lambda>img_bytes.
     bnd (lift (b64encode e img_bytes)) (\<lambda>b64.
     bnd (config_get ''windowWidth'' (JInt 1920)) (\<lambda>width.
     bnd (config_get ''windowHeight'' (JInt 1080)) (\<lambda>height.
       ret (JObj [(''base64'', JStr b64), (''format'', fmt),
                  (''width'', width), (''height'', height)])))))))"

text \<open>The text of the DOM-scanning script, a constant of the source, is not spelled out.\<close>

definition js_code :: json where
  "js_code = JStr ''(() => { ... })()''"

definition handle_get_dom_map :: "env \<Rightarrow> json \<Rightarrow> json act" where
  "handle_get_dom_map e params =
     bnd (page_call e ''run_js'' [js_code]) (\<lambda>elements.
     bnd (page_call e ''url'' []) (\<lambda>u.
     bnd (page_call e ''title'' []) (\<lambda>t.
       ret (JObj [(''elements'', if py_truthy elements then elements else JArr []),
                  (''url'', u), (''title'', t)]))))"

definition handle_scroll :: "env \<Rightarrow> json \<Rightarrow> json act" where
  "handle_scroll e params =
     bnd (lift (py_get params ''direction'' (JStr ''down''))) (\<lambda>direction.
     bnd (lift (py_get params ''amount'' (JInt 300))) (\<lambda>pa.
     bnd (lift (py_int e pa)) (\<lambda>amount.
     bnd (if direction = JStr ''down'' then bnd (page_call e ''scroll.down'' [JInt amount]) (\<lambda>_. ret ())
          else if direction = JStr ''up'' then bnd (page_call e ''scroll.up'' [JInt amount]) (\<lambda>_. ret ())
          else if direction = JStr ''top'' then bnd (page_call e ''scroll.to_top'' []) (\<lambda>_. ret ())
          else if direction = JStr ''bottom'' then bnd (page_call e ''scroll.to_bottom'' []) (\<lambda>_. ret ())
          else ret ()) (\<lambda>_.
     bnd (config_get ''naturalMouseMovement'' (JBool True)) (\<lambda>natural.
     bnd (if py_truthy natural then bnd get_page (\<lambda>pg. random_scroll_jitter e pg 30)
          else ret ()) (\<lambda>_.
     bnd (apply_human_delay e) (\<lambda>_.
       ret (JObj [(''success'', JBool True), (''direction'', direction)]))))))))"

definition handle_wait :: "env \<Rightarrow> json \<Rightarrow> json act" where
  "handle_wait e params =
     bnd (lift (py_get params ''ms'' (JInt 1000))) (\<lambda>pm.
     bnd (lift (py_int e pm)) (\<lambda>ms.
     bnd (lift (py_get params ''selector'' JNull)) (\<lambda>selector.
       if py_truthy selector
       then
         try_except
           (bnd (page_call e ''wait.ele_displayed'' [selector, JFloat (of_int ms / 1000)]) (\<lambda>_.
              ret (JObj [(''success'', JBool True), (''waited_for'', selector)])))
           (\<lambda>_. ret (JObj [(''success'', JBool False), (''waited_for'', selector),
                            (''timedOut'', JBool True)]))
       else
         bnd (py_sleep (of_int ms / 1000)) (\<lambda>_.
           ret (JObj [(''success'', JBool True), (''waited_ms'', JInt ms)])))))"

definition handle_execute_js :: "env \<Rightarrow> json \<Rightarrow> json act" where
  "handle_execute_js e params =
     bnd (lift (py_get params ''code'' (JStr []))) (\<lambda>code.
       if \<not> py_truthy code then raise (Exn ValueError ''code is required'')
       else bnd (page_call e ''run_js'' [code]) (\<lambda>result. ret (JObj [(''result'', result)])))"

text \<open>
  \<^verbatim>\<open>handle_close\<close>: a page object is truthy, so \<^verbatim>\<open>if _page:\<close> asks whether there is
  one; what \<^verbatim>\<open>quit\<close> raises is swallowed.
\<close>

definition handle_close :: "env \<Rightarrow> json \<Rightarrow> json act" where
  "handle_close e params =
     bnd get_page (\<lambda>pg.
     bnd (if pg \<noteq> None
          then bnd (swallow (page_call e ''quit'' [])) (\<lambda>_. set_page None)
          else ret ()) (\<lambda>_.
       ret (JObj [(''status'', JStr ''closed'')])))"

definition handle_get_page_info :: "env \<Rightarrow> json \<Rightarrow> json act" where
  "handle_get_page_info e params =
     bnd get_page (\<lambda>pg.
     bnd (if pg \<noteq> None then page_call e ''url'' [] else ret (JStr [])) (\<lambda>u.
     bnd (if pg \<noteq> None then page_call e ''title'' [] else ret (JStr [])) (\<lambda>t.
       ret (JObj [(''url'', u), (''title'', t), (''ready'', JBool (pg \<noteq> None))]))))"

subsection \<open>Method dispatch and the main loop\<close>

definition METHODS :: "(string \<times> (env \<Rightarrow> json \<Rightarrow> json act)) list" where
  "METHODS =
     [(''init'', handle_init),
      (''navigate'', handle_navigate),
      (''click_element'', handle_click_element),
      (''click_xy'', handle_click_xy),
      (''type_text'', handle_type_text),
      (''screenshot'', handle_screenshot),
      (''get_dom_map'', handle_get_dom_map),
      (''scroll'', handle_scroll),
      (''wait'', handle_wait),
      (''execute_js'', handle_execute_js),
      (''close'', handle_close),
      (''get_page_info'', handle_get_page_info)]"

text \<open>
  \<^verbatim>\<open>METHODS.get(method)\<close>: the keys are strings, so no other hashable value is found; a
  list or a dict cannot be hashed.
\<close>

definition methods_get :: "json \<Rightarrow> exn + (env \<Rightarrow> json \<Rightarrow> json act) option" where
  "methods_get method =
     (case method of
        JStr s \<Rightarrow> Inr (map_of METHODS s)
      | JArr xs \<Rightarrow> Inl (Exn TypeError (''unhashable type: '' @ [CHR 0x27] @ ''list'' @ [CHR 0x27]))
      | JObj kv \<Rightarrow> Inl (Exn TypeError (''unhashable type: '' @ [CHR 0x27] @ ''dict'' @ [CHR 0x27]))
      | _ \<Rightarrow> Inr None)"

text \<open>The characters \<^verbatim>\<open>str.strip()\<close> removes, among the first 256 code points.\<close>

definition py_isspace :: "char \<Rightarrow> bool" where
  "py_isspace c =
     (of_char c \<in> {9 :: nat, 10, 11, 12, 13, 28, 29, 30, 31, 32, 133, 160})"

definition strip :: "string \<Rightarrow> string" where
  "strip s = rev (dropWhile py_isspace (rev (dropWhile py_isspace s)))"

text \<open>The \<^verbatim>\<open>except Exception as e\<close> branch of the loop.\<close>

definition send_exception :: "env \<Rightarrow> json \<Rightarrow> exn \<Rightarrow> world \<Rightarrow> world" where
  "send_exception e msg_id x w =
     send_error msg_id (- 32000) (exn_str x)
       (Some (JObj [(''traceback'', JStr (format_exc e x))])) w"

definition not_initialized :: string where
  "not_initialized =
     ''Browser not initialized. Call '' @ [CHR 0x27] @ ''init'' @ [CHR 0x27] @ '' first.''"

text \<open>
  The \<^verbatim>\<open>try\<close> block of the loop once \<^verbatim>\<open>json.loads\<close> has returned \<open>req\<close>. Before
  \<^verbatim>\<open>req.get("id", 0)\<close> returns, \<^verbatim>\<open>msg_id\<close> is still 0.
\<close>

definition handle_request :: "env \<Rightarrow> json \<Rightarrow> world \<Rightarrow> world" where
  "handle_request e req w =
     (case py_get req ''id'' (JInt 0) of
        Inl x \<Rightarrow> send_exception e (JInt 0) x w
      | Inr msg_id \<Rightarrow>
     (case py_get req ''method'' (JStr []) of
        Inl x \<Rightarrow> send_exception e msg_id x w
      | Inr method \<Rightarrow>
     (case py_get req ''params'' (JObj []) of
        Inl x \<Rightarrow> send_exception e msg_id x w
      | Inr params \<Rightarrow>
     (case methods_get method of
        Inl x \<Rightarrow> send_exception e msg_id x w
      | Inr None \<Rightarrow>
          send_error msg_id (- 32601) (''Method not found: '' @ py_str e method) None w
      | Inr (Some handler) \<Rightarrow>
          if method \<noteq> JStr ''init'' \<and> page w = None \<and> method \<noteq> JStr ''close''
          then send_error msg_id (- 32000) not_initialized None w
          else
            (case handler e params w of
               (Inl x, w1) \<Rightarrow> send_exception e msg_id x w1
             | (Inr result, w1) \<Rightarrow> send_response msg_id result None w1)))))"

text \<open>The body of \<^verbatim>\<open>for line in sys.stdin\<close>.\<close>

definition handle_line :: "env \<Rightarrow> string \<Rightarrow> world \<Rightarrow> world" where
  "handle_line e raw w =
     (let line = strip raw
      in if line = [] then w
         else case json_loads e line of
                Inl x \<Rightarrow> send_exception e (JInt 0) x w
              | Inr req \<Rightarrow> handle_request e req w)"

fun main_loop :: "env \<Rightarrow> string list \<Rightarrow> world \<Rightarrow> world" where
  "main_loop e [] w = w"
| "main_loop e (line # lines) w = main_loop e lines (handle_line e line w)"

text \<open>The process at its start, and \<^verbatim>\<open>main\<close> on the lines of standard input.\<close>

definition initial_world :: world where
  "initial_world = \<lparr>page = None, config = JObj [], trace = [], rcount = 0, out = []\<rparr>"

definition main :: "env \<Rightarrow> string list \<Rightarrow> world" where
  "main e lines =
     main_loop e lines (initial_world\<lparr>out := [JObj [(''ready'', JBool True)]]\<rparr>)"

section \<open>Notions for the statements, and example inputs\<close>

text \<open>
  An action keeps the session when it leaves both globals, \<^verbatim>\<open>_page\<close> and \<^verbatim>\<open>_config\<close>,
  as they were, whatever it returns or raises.
\<close>

definition keeps_session :: "'a act \<Rightarrow> bool" where
  "keeps_session m \<longleftrightarrow> (\<forall>w. page (snd (m w)) = page w \<and> config (snd (m w)) = config w)"

text \<open>
  An action yields \<open>P\<close> when, from every state, it returns normally with a value that
  satisfies \<open>P\<close>.
\<close>

definition yields :: "'a act \<Rightarrow> ('a \<Rightarrow> bool) \<Rightarrow> bool" where
  "yields m P \<longleftrightarrow> (\<forall>w. \<exists>v w1. m w = (Inr v, w1) \<and> P v)"

text \<open>The method a line asks for, when the line parses to an object that names one.\<close>

definition line_method :: "env \<Rightarrow> string \<Rightarrow> json option" where
  "line_method e raw =
     (case json_loads e (strip raw) of
        Inr (JObj kv) \<Rightarrow> map_of kv ''method''
      | _ \<Rightarrow> None)"


text \<open>
  Example lines. The example environment parses them by table and rejects every other
  line; its driver returns \<^verbatim>\<open>None\<close> from every call and its generator always draws 0.
\<close>

definition line_get_page_info :: string where
  \<open>line_get_page_info = ''{"id":1,"method":"get_page_info","params":{}}''\<close>

definition line_navigate_no_url :: string where
  \<open>line_navigate_no_url = ''{"id":2,"method":"navigate","params":{}}''\<close>

definition line_frobnicate :: string where
  \<open>line_frobnicate = ''{"id":3,"method":"frobnicate","params":{}}''\<close>

definition line_close :: string where
  \<open>line_close = ''{"id":4,"method":"close","params":{}}''\<close>

definition line_click_xy :: string where
  \<open>line_click_xy = ''{"id":5,"method":"click_xy","params":{}}''\<close>

definition line_scroll :: string where
  \<open>line_scroll = ''{"id":6,"method":"scroll","params":{"direction":"top"}}''\<close>

definition line_garbage :: string where
  "line_garbage = ''not json''"

text \<open>A line as the loop reads it from standard input, with its newline.\<close>

definition with_newline :: "string \<Rightarrow> string" where
  "with_newline s = s @ [CHR 0x0A]"

definition demo_request :: "int \<Rightarrow> string \<Rightarrow> (string \<times> json) list \<Rightarrow> json" where
  "demo_request i m ps = JObj [(''id'', JInt i), (''method'', JStr m), (''params'', JObj ps)]"

definition demo_requests :: "(string \<times> json) list" where
  "demo_requests =
     [(line_get_page_info, demo_request 1 ''get_page_info'' []),
      (line_navigate_no_url, demo_request 2 ''navigate'' []),
      (line_frobnicate, demo_request 3 ''frobnicate'' []),
      (line_close, demo_request 4 ''close'' []),
      (line_click_xy, demo_request 5 ''click_xy'' []),
      (line_scroll, demo_request 6 ''scroll'' [(''direction'', JStr ''top'')])]"

definition demo_loads :: "string \<Rightarrow> exn + json" where
  "demo_loads s =
     (case map_of demo_requests s of
        Some req \<Rightarrow> Inr req
      | None \<Rightarrow> Inl (Exn JSONDecodeError ''Expecting value: line 1 column 1 (char 0)''))"

definition demo_env :: env where
  "demo_env =
     \<lparr>drv = (\<lambda>h n a. Inr JNull), rnd = (\<lambda>k. 0), drission_installed = True,
      json_loads = demo_loads, int_of_str = (\<lambda>s. None), repr = (\<lambda>j. ''?''),
      b64encode = (\<lambda>j. Inr []), format_exc = (\<lambda>x. ''Traceback (most recent call last): ...'')\<rparr>"

text \<open>A session as \<^verbatim>\<open>init\<close> leaves it when natural mouse movement is switched off.\<close>

definition demo_ready :: world where
  "demo_ready =
     \<lparr>page = Some (JStr ''page''), config = JObj [(''naturalMouseMovement'', JBool False)],
      trace = [], rcount = 0, out = []\<rparr>"

text \<open>
  What \<^verbatim>\<open>human_type\<close> can do with one character: \<^verbatim>\<open>element.input\<close> accepts it and the
  delay \<open>d\<close> follows; \<^verbatim>\<open>element.input\<close> raises, \<^verbatim>\<open>element.type\<close> accepts it and the delay
  \<open>d\<close> follows; or both raise.
\<close>

datatype outcome = Typed real | Retyped real | Rejected

text \<open>An accepted character is followed by a delay, which takes two draws.\<close>

fun accepted :: "outcome \<Rightarrow> bool" where
  "accepted (Typed d) = True"
| "accepted (Retyped d) = True"
| "accepted Rejected = False"

text \<open>The effects of \<^verbatim>\<open>human_type\<close> for the character \<open>c\<close>, by its outcome.\<close>

fun outcome_events :: "json \<Rightarrow> char \<Rightarrow> outcome \<Rightarrow> event list" where
  "outcome_events el c (Typed d) = [Call ''element.input'' [el, JStr [c]], Sleep d]"
| "outcome_events el c (Retyped d) =
     [Call ''element.input'' [el, JStr [c]], Call ''element.type'' [el, JStr [c]], Sleep d]"
| "outcome_events el c Rejected =
     [Call ''element.input'' [el, JStr [c]], Call ''element.type'' [el, JStr [c]]]"

text \<open>
  The delay after an accepted character, in seconds: the per-character delay between the
  two bounds given in milliseconds, or the longer pause.
\<close>

definition delay_ok :: "real \<Rightarrow> real \<Rightarrow> real \<Rightarrow> bool" where
  "delay_ok lo hi d \<longleftrightarrow> lo / 1000 \<le> d \<and> d \<le> hi / 1000 \<or> 0.3 \<le> d \<and> d \<le> 0.8"

text \<open>
  The outcomes \<open>os\<close> are those of typing the characters \<open>cs\<close> from the history \<open>h\<close>:
  each outcome is the one the driver's answers at that point of the history give, the run
  goes on after an accepted character and ends at the first rejected one or with the text.
\<close>

fun typing_run :: "env \<Rightarrow> json \<Rightarrow> real \<Rightarrow> real \<Rightarrow> event list \<Rightarrow> string \<Rightarrow> outcome list \<Rightarrow> bool" where
  "typing_run e el lo hi h [] os = (os = [])"
| "typing_run e el lo hi h (c # cs) [] = False"
| "typing_run e el lo hi h (c # cs) (Typed d # os) =
     (\<not> isl (drv e h ''element.input'' [el, JStr [c]]) \<and>
      delay_ok lo hi d \<and>
      typing_run e el lo hi (h @ outcome_events el c (Typed d)) cs os)"
| "typing_run e el lo hi h (c # cs) (Retyped d # os) =
     (isl (drv e h ''element.input'' [el, JStr [c]]) \<and>
      \<not> isl (drv e (h @ [Call ''element.input'' [el, JStr [c]]]) ''element.type'' [el, JStr [c]]) \<and>
      delay_ok lo hi d \<and>
      typing_run e el lo hi (h @ outcome_events el c (Retyped d)) cs os)"
| "typing_run e el lo hi h (c # cs) (Rejected # os) =
     (isl (drv e h ''element.input'' [el, JStr [c]]) \<and>
      isl (drv e (h @ [Call ''element.input'' [el, JStr [c]]]) ''element.type'' [el, JStr [c]]) \<and>
      os = [])"

text \<open>
  An example element: its \<^verbatim>\<open>input\<close> accepts only the character a, its \<^verbatim>\<open>type\<close> only the
  character b; every raw draw is \<open>2 ^ 52\<close>, so \<^verbatim>\<open>random()\<close> is always 1/2.
\<close>

definition typing_env :: env where
  "typing_env =
     demo_env\<lparr>
       drv := (\<lambda>h name args.
                 if name = ''element.input'' \<and> args = [JStr ''field'', JStr ''a''] then Inr JNull
                 else if name = ''element.type'' \<and> args = [JStr ''field'', JStr ''b''] then Inr JNull
                 else Inl (Exn DriverError ''input rejected'')),
       rnd := (\<lambda>k. 2 ^ 52)\<rparr>"

text \<open>
  The bound on the coordinates under which the arithmetic of \<^verbatim>\<open>bezier_curve_points\<close> stays
  finite: squares of distances, the spread and the control points are all below
  \<open>float_limit\<close>.
\<close>

definition coordinate_bound :: real where
  "coordinate_bound = 10 ^ 150"

text \<open>
  An action only extends the trace when, from every state, the driver calls and sleeps
  recorded before it are still there after it, in front of its own.
\<close>

definition grows :: "'a act \<Rightarrow> bool" where
  "grows m \<longleftrightarrow> (\<forall>w. \<exists>evs. trace (snd (m w)) = trace w @ evs)"

section \<open>The example inputs evaluated\<close>

lemmas demo_line_defs = line_get_page_info_def line_navigate_no_url_def line_frobnicate_def
  line_close_def line_click_xy_def line_scroll_def line_garbage_def

lemma demo_strip:
  "strip (with_newline line_get_page_info) = line_get_page_info"
  "strip (with_newline line_navigate_no_url) = line_navigate_no_url"
  "strip (with_newline line_frobnicate) = line_frobnicate"
  "strip (with_newline line_close) = line_close"
  "strip (with_newline line_click_xy) = line_click_xy"
  "strip (with_newline line_scroll) = line_scroll"
  "strip (with_newline line_garbage) = line_garbage"
  by (simp_all add: strip_def py_isspace_def demo_line_defs with_newline_def)

lemma demo_parse:
  "json_loads demo_env line_get_page_info = Inr (demo_request 1 ''get_page_info'' [])"
  "json_loads demo_env line_navigate_no_url = Inr (demo_request 2 ''navigate'' [])"
  "json_loads demo_env line_frobnicate = Inr (demo_request 3 ''frobnicate'' [])"
  "json_loads demo_env line_close = Inr (demo_request 4 ''close'' [])"
  "json_loads demo_env line_click_xy = Inr (demo_request 5 ''click_xy'' [])"
  "json_loads demo_env line_scroll = Inr (demo_request 6 ''scroll'' [(''direction'', JStr ''top'')])"
  "json_loads demo_env line_garbage = Inl (Exn JSONDecodeError ''Expecting value: line 1 column 1 (char 0)'')"
  by (simp_all add: demo_env_def demo_loads_def demo_requests_def demo_line_defs)

lemma demo_nonempty:
  "line_get_page_info \<noteq> []" "line_navigate_no_url \<noteq> []" "line_frobnicate \<noteq> []"
  "line_close \<noteq> []" "line_click_xy \<noteq> []" "line_scroll \<noteq> []" "line_garbage \<noteq> []"
  by (simp_all add: demo_line_defs)

lemma demo_env_simps:
  "drv demo_env h n a = Inr JNull" "rnd demo_env k = 0" "drission_installed demo_env"
  "int_of_str demo_env s = None" "repr demo_env j = ''?''" "b64encode demo_env j = Inr []"
  "format_exc demo_env x = ''Traceback (most recent call last): ...''"
  by (simp_all add: demo_env_def)

section \<open>Actions that keep the session\<close>

lemma keeps_sessionD:
  "keeps_session m \<Longrightarrow> m w = (r, w1) \<Longrightarrow> page w1 = page w \<and> config w1 = config w"
  by (metis keeps_session_def snd_conv)

lemma ks_ret: "keeps_session (ret x)"
  by (simp add: keeps_session_def ret_def)

lemma ks_raise: "keeps_session (raise x)"
  by (simp add: keeps_session_def raise_def)

lemma ks_lift: "keeps_session (lift r)"
  by (simp add: keeps_session_def lift_def)

lemma ks_bnd: "keeps_session m \<Longrightarrow> (\<And>v. keeps_session (f v)) \<Longrightarrow> keeps_session (bnd m f)"
  unfolding keeps_session_def bnd_def
  by (auto split: prod.splits sum.splits) (metis snd_conv)+

lemma ks_if: "(c \<Longrightarrow> keeps_session a) \<Longrightarrow> (\<not> c \<Longrightarrow> keeps_session b) \<Longrightarrow> keeps_session (if c then a else b)"
  by simp

lemma ks_swallow: "keeps_session m \<Longrightarrow> keeps_session (swallow m)"
  by (simp add: keeps_session_def swallow_def)

lemma ks_try_except: "keeps_session m \<Longrightarrow> (\<And>x. keeps_session (h x)) \<Longrightarrow> keeps_session (try_except m h)"
  unfolding keeps_session_def try_except_def
  by (auto split: prod.splits sum.splits) (metis snd_conv)+

lemma ks_catch: "keeps_session m \<Longrightarrow> keeps_session h \<Longrightarrow> keeps_session (catch c m h)"
  unfolding keeps_session_def catch_def
  by (auto split: prod.splits sum.splits) (metis snd_conv)+

lemma ks_call: "keeps_session (call e n a)"
  by (simp add: keeps_session_def call_def)

lemma ks_method_call: "keeps_session (method_call e obj n a)"
  by (simp add: keeps_session_def method_call_def call_def split: option.splits)

lemma ks_page_call: "keeps_session (page_call e n a)"
  by (simp add: keeps_session_def page_call_def method_call_def call_def split: option.splits)

lemma ks_py_sleep: "keeps_session (py_sleep d)"
  by (simp add: keeps_session_def py_sleep_def)

lemma ks_py_random: "keeps_session (py_random e)"
  by (simp add: keeps_session_def py_random_def)

lemma ks_randbelow: "keeps_session (randbelow e n)"
  by (simp add: keeps_session_def randbelow_def)

lemma ks_config_get: "keeps_session (config_get k d)"
  by (simp add: keeps_session_def config_get_def)

lemma ks_get_page: "keeps_session get_page"
  by (simp add: keeps_session_def get_page_def)

lemmas ks_basic = ks_ret ks_raise ks_lift ks_bnd ks_if ks_swallow ks_try_except ks_catch ks_call
  ks_method_call ks_page_call ks_py_sleep ks_py_random ks_randbelow ks_config_get ks_get_page

lemma ks_uniform: "keeps_session (uniform e a b)"
  unfolding uniform_def by (intro ks_basic)

lemma ks_randint: "keeps_session (randint e a b)"
  unfolding randint_def by (intro ks_basic)

lemma ks_random_delay: "keeps_session (random_delay e a b)"
  unfolding random_delay_def
  by (auto split: option.splits intro!: ks_basic ks_uniform)

lemma ks_apply_human_delay: "keeps_session (apply_human_delay e)"
  unfolding apply_human_delay_def get_delay_range_def
  by (intro ks_basic ks_random_delay)

lemma ks_uniform_float: "keeps_session (uniform_float e a b)"
  unfolding uniform_float_def by (intro ks_basic)

lemma ks_bezier_curve_points: "keeps_session (bezier_curve_points e s t n)"
  unfolding bezier_curve_points_def Let_def
  by (auto split: prod.splits intro!: ks_basic ks_uniform ks_uniform_float)

lemma ks_move_step: "keeps_session (move_step e pg p)"
proof -
  have pause: "keeps_session (bnd (move_pause e) (\<lambda>_. ret True))"
    unfolding move_pause_def by (intro ks_basic ks_uniform)
  show ?thesis
    unfolding keeps_session_def move_step_def Let_def
    by (auto split: prod.splits sum.splits simp: pause[unfolded keeps_session_def]
        dest!: keeps_sessionD[OF ks_method_call])
qed

lemma ks_move_loop: "keeps_session (move_loop e pg ps)"
  unfolding keeps_session_def
proof (induction ps)
  case Nil
  show ?case by simp
next
  case (Cons p ps)
  show ?case
    using Cons.IH
    by (auto split: prod.splits sum.splits bool.splits dest!: keeps_sessionD[OF ks_move_step])
qed

lemma ks_bezier_mouse_move: "keeps_session (bezier_mouse_move e pg s t)"
  unfolding bezier_mouse_move_def
  by (intro ks_basic ks_randint ks_bezier_curve_points ks_move_loop)

lemma ks_random_scroll_jitter: "keeps_session (random_scroll_jitter e pg d)"
  unfolding random_scroll_jitter_def
  by (intro ks_basic ks_randint ks_random_delay)

lemma ks_type_pause: "keeps_session (type_pause e lo hi)"
  unfolding type_pause_def
  by (intro ks_basic ks_uniform)

lemma ks_type_step: "keeps_session (type_step e el c lo hi)"
proof -
  have pause: "keeps_session (bnd (type_pause e lo hi) (\<lambda>_. ret True))"
    by (intro ks_basic ks_type_pause)
  show ?thesis
    unfolding keeps_session_def type_step_def Let_def
    by (auto split: prod.splits sum.splits simp: pause[unfolded keeps_session_def]
        dest!: keeps_sessionD[OF ks_call])
qed

lemma ks_type_loop: "keeps_session (type_loop e el cs lo hi)"
  unfolding keeps_session_def
proof (induction cs)
  case Nil
  show ?case by simp
next
  case (Cons c cs)
  show ?case
    using Cons.IH
    by (auto split: prod.splits sum.splits bool.splits dest!: keeps_sessionD[OF ks_type_step])
qed

lemma ks_human_type: "keeps_session (human_type e el t lo hi)"
  unfolding human_type_def
  by (intro ks_basic ks_type_loop)

lemma ks_get_random_viewport_point: "keeps_session (get_random_viewport_point e a b)"
  unfolding get_random_viewport_point_def
  by (intro ks_basic ks_randint)

lemma ks_add_human_noise_to_coords: "keeps_session (add_human_noise_to_coords e x y k)"
  unfolding add_human_noise_to_coords_def
  by (intro ks_basic ks_randint)

lemmas ks_helpers = ks_basic ks_uniform ks_randint ks_random_delay ks_apply_human_delay
  ks_bezier_mouse_move ks_random_scroll_jitter ks_human_type ks_get_random_viewport_point
  ks_add_human_noise_to_coords

lemma ks_handle_navigate: "keeps_session (handle_navigate e params)"
  unfolding handle_navigate_def by (intro ks_helpers)

lemma ks_move_to_element: "keeps_session (move_to_element e el)"
  unfolding move_to_element_def by (intro ks_helpers)

lemma ks_handle_click_element: "keeps_session (handle_click_element e params)"
  unfolding handle_click_element_def by (intro ks_helpers ks_move_to_element)

lemma ks_handle_click_xy: "keeps_session (handle_click_xy e params)"
  unfolding handle_click_xy_def by (intro ks_helpers)

lemma ks_handle_type_text: "keeps_session (handle_type_text e params)"
  unfolding handle_type_text_def by (intro ks_helpers)

lemma ks_handle_screenshot: "keeps_session (handle_screenshot e params)"
  unfolding handle_screenshot_def by (intro ks_helpers)

lemma ks_handle_get_dom_map: "keeps_session (handle_get_dom_map e params)"
  unfolding handle_get_dom_map_def by (intro ks_helpers)

lemma ks_handle_scroll: "keeps_session (handle_scroll e params)"
  unfolding handle_scroll_def by (intro ks_helpers)

lemma ks_handle_wait: "keeps_session (handle_wait e params)"
  unfolding handle_wait_def by (intro ks_helpers)

lemma ks_handle_execute_js: "keeps_session (handle_execute_js e params)"
  unfolding handle_execute_js_def by (intro ks_helpers)

lemma ks_handle_get_page_info: "keeps_session (handle_get_page_info e params)"
  unfolding handle_get_page_info_def by (intro ks_helpers)

lemma send_response_session [simp]:
  "page (send_response i r x w) = page w" "config (send_response i r x w) = config w"
  "trace (send_response i r x w) = trace w"
  by (simp_all add: send_response_def)

lemma send_error_session [simp]:
  "page (send_error i c m d w) = page w" "config (send_error i c m d w) = config w"
  "trace (send_error i c m d w) = trace w"
  by (simp_all add: send_error_def)

lemma send_exception_session [simp]:
  "page (send_exception e i x w) = page w" "config (send_exception e i x w) = config w"
  "trace (send_exception e i x w) = trace w"
  by (simp_all add: send_exception_def)

lemma methods_keep_session:
  assumes "map_of METHODS s = Some h" and "s \<noteq> ''init''" and "s \<noteq> ''close''"
  shows "keeps_session (h e params)"
  using assms
  by (auto simp: METHODS_def ks_handle_navigate ks_handle_click_element ks_handle_click_xy
      ks_handle_type_text ks_handle_screenshot ks_handle_get_dom_map ks_handle_scroll
      ks_handle_wait ks_handle_execute_js ks_handle_get_page_info split: if_splits)

lemma handle_close_config: "config (snd (handle_close e params w)) = config w"
  by (simp add: handle_close_def bnd_def get_page_def swallow_def set_page_def ret_def
      ks_page_call[unfolded keeps_session_def] split: prod.splits sum.splits)

lemma methods_keep_config:
  assumes "map_of METHODS s = Some h" and "s \<noteq> ''init''"
  shows "config (snd (h e params w)) = config w"
proof (cases "s = ''close''")
  case True
  with assms have "h = handle_close" by (simp add: METHODS_def)
  then show ?thesis by (simp add: handle_close_config)
next
  case False
  with assms have "keeps_session (h e params)" by (simp add: methods_keep_session)
  then show ?thesis by (simp add: keeps_session_def)
qed

lemma handle_request_config:
  assumes "\<forall>kv. req = JObj kv \<longrightarrow> map_of kv ''method'' \<noteq> Some (JStr ''init'')"
  shows "config (handle_request e req w) = config w"
proof (cases req)
  case (JObj kv)
  with assms have ni: "map_of kv ''method'' \<noteq> Some (JStr ''init'')" by simp
  show ?thesis
  proof (cases "map_of kv ''method''")
    case None
    then show ?thesis using JObj
      by (simp add: handle_request_def methods_get_def METHODS_def)
  next
    case (Some m)
    with ni have m: "m \<noteq> JStr ''init''" by simp
    show ?thesis
    proof (cases m)
      case (JStr s)
      with m have s: "s \<noteq> ''init''" by simp
      show ?thesis
      proof (cases "map_of METHODS s")
        case None
        then show ?thesis using JObj Some JStr
          by (simp add: handle_request_def methods_get_def)
      next
        case (Some h)
        have "config (snd (h e p w)) = config w" for p
          using methods_keep_config[OF Some s] .
        then show ?thesis using JObj \<open>map_of kv ''method'' = Some m\<close> JStr Some
          by (auto simp: handle_request_def methods_get_def split: prod.splits sum.splits)
            (metis snd_conv)+
      qed
    qed (use JObj Some in \<open>simp_all add: handle_request_def methods_get_def\<close>)
  qed
qed (simp_all add: handle_request_def)

lemma handle_request_page:
  assumes "\<forall>kv. req = JObj kv \<longrightarrow> map_of kv ''method'' \<noteq> Some (JStr ''init'')
             \<and> map_of kv ''method'' \<noteq> Some (JStr ''close'')"
  shows "page (handle_request e req w) = page w"
proof (cases req)
  case (JObj kv)
  with assms have ni: "map_of kv ''method'' \<noteq> Some (JStr ''init'')"
    and nc: "map_of kv ''method'' \<noteq> Some (JStr ''close'')" by simp_all
  show ?thesis
  proof (cases "map_of kv ''method''")
    case None
    then show ?thesis using JObj
      by (simp add: handle_request_def methods_get_def METHODS_def)
  next
    case (Some m)
    with ni nc have m: "m \<noteq> JStr ''init''" "m \<noteq> JStr ''close''" by simp_all
    show ?thesis
    proof (cases m)
      case (JStr s)
      with m have s: "s \<noteq> ''init''" "s \<noteq> ''close''" by simp_all
      show ?thesis
      proof (cases "map_of METHODS s")
        case None
        then show ?thesis using JObj Some JStr
          by (simp add: handle_request_def methods_get_def)
      next
        case (Some h)
        have "page (snd (h e p w)) = page w" for p
          using methods_keep_session[OF Some s] by (simp add: keeps_session_def)
        then show ?thesis using JObj \<open>map_of kv ''method'' = Some m\<close> JStr Some
          by (auto simp: handle_request_def methods_get_def split: prod.splits sum.splits)
            (metis snd_conv)+
      qed
    qed (use JObj Some in \<open>simp_all add: handle_request_def methods_get_def\<close>)
  qed
qed (simp_all add: handle_request_def)

section \<open>Actions that only extend the trace\<close>

lemma growsD: "grows m \<Longrightarrow> m w = (r, w1) \<Longrightarrow> \<exists>evs. trace w1 = trace w @ evs"
  by (metis grows_def snd_conv)

lemma gr_ret: "grows (ret x)"
  by (simp add: grows_def ret_def)

lemma gr_raise: "grows (raise x)"
  by (simp add: grows_def raise_def)

lemma gr_lift: "grows (lift r)"
  by (simp add: grows_def lift_def)

lemma gr_bnd:
  assumes "grows m" and "\<And>v. grows (f v)"
  shows "grows (bnd m f)"
  unfolding grows_def
proof
  fix w
  obtain r w1 where m: "m w = (r, w1)" by (cases "m w")
  from growsD[OF assms(1) m] obtain evs where e1: "trace w1 = trace w @ evs" ..
  show "\<exists>evs. trace (snd (bnd m f w)) = trace w @ evs"
  proof (cases r)
    case (Inl x)
    then show ?thesis using m e1 by (simp add: bnd_def)
  next
    case (Inr v)
    from assms(2)[of v] obtain evs2 where "trace (snd (f v w1)) = trace w1 @ evs2"
      unfolding grows_def by blast
    then show ?thesis using m e1 Inr by (simp add: bnd_def)
  qed
qed

lemma gr_if: "(c \<Longrightarrow> grows a) \<Longrightarrow> (\<not> c \<Longrightarrow> grows b) \<Longrightarrow> grows (if c then a else b)"
  by simp

lemma gr_call: "grows (call e n a)"
  by (simp add: grows_def call_def)

lemma gr_method_call: "grows (method_call e obj n a)"
  by (simp add: grows_def method_call_def call_def split: option.splits)

lemma gr_page_call: "grows (page_call e n a)"
  by (simp add: grows_def page_call_def method_call_def call_def split: option.splits)

lemma gr_py_sleep: "grows (py_sleep d)"
  by (simp add: grows_def py_sleep_def)

lemma gr_py_random: "grows (py_random e)"
  by (simp add: grows_def py_random_def)

lemma gr_randbelow: "grows (randbelow e n)"
  by (simp add: grows_def randbelow_def)

lemma gr_config_get: "grows (config_get k d)"
  by (simp add: grows_def config_get_def)

lemma gr_get_page: "grows get_page"
  by (simp add: grows_def get_page_def)

lemmas gr_basic = gr_ret gr_raise gr_lift gr_bnd gr_if gr_call gr_method_call gr_page_call
  gr_py_sleep gr_py_random gr_randbelow gr_config_get gr_get_page

lemma gr_uniform: "grows (uniform e a b)"
  unfolding uniform_def by (intro gr_basic)

lemma gr_randint: "grows (randint e a b)"
  unfolding randint_def by (intro gr_basic)

lemma gr_random_delay: "grows (random_delay e a b)"
  unfolding random_delay_def
  by (auto split: option.splits intro!: gr_basic gr_uniform)

lemma gr_apply_human_delay: "grows (apply_human_delay e)"
  unfolding apply_human_delay_def get_delay_range_def
  by (intro gr_basic gr_random_delay)

lemma gr_uniform_float: "grows (uniform_float e a b)"
  unfolding uniform_float_def by (intro gr_basic)

lemma gr_bezier_curve_points: "grows (bezier_curve_points e s t n)"
  unfolding bezier_curve_points_def Let_def
  by (auto split: prod.splits intro!: gr_basic gr_uniform gr_uniform_float)

lemma gr_move_step: "grows (move_step e pg p)"
  unfolding grows_def
proof
  fix w
  have pause: "grows (bnd (move_pause e) (\<lambda>_. ret True))"
    unfolding move_pause_def by (intro gr_basic gr_uniform)
  obtain r1 w1 where c1: "method_call e pg ''actions.move'' [JInt (fst p), JInt (snd p)] w = (r1, w1)"
    by (cases "method_call e pg ''actions.move'' [JInt (fst p), JInt (snd p)] w")
  from growsD[OF gr_method_call c1] obtain ev1 where e1: "trace w1 = trace w @ ev1" ..
  obtain r2 w2 where c2: "method_call e pg ''actions.move_to'' [JInt (fst p), JInt (snd p)] w1 = (r2, w2)"
    by (cases "method_call e pg ''actions.move_to'' [JInt (fst p), JInt (snd p)] w1")
  from growsD[OF gr_method_call c2] obtain ev2 where e2: "trace w2 = trace w1 @ ev2" ..
  obtain ev3 where e3: "trace (snd (bnd (move_pause e) (\<lambda>_. ret True) w1)) = trace w1 @ ev3"
    using pause unfolding grows_def by blast
  obtain ev4 where e4: "trace (snd (bnd (move_pause e) (\<lambda>_. ret True) w2)) = trace w2 @ ev4"
    using pause unfolding grows_def by blast
  show "\<exists>evs. trace (snd (move_step e pg p w)) = trace w @ evs"
    using c1 c2 e1 e2 e3 e4
    by (cases r1; cases r2) (simp_all add: move_step_def Let_def)
qed

lemma gr_move_loop: "grows (move_loop e pg ps)"
  unfolding grows_def
proof (induction ps)
  case Nil
  show ?case by simp
next
  case (Cons p ps)
  show ?case
  proof
    fix w
    obtain r w1 where s: "move_step e pg p w = (r, w1)" by (cases "move_step e pg p w")
    from growsD[OF gr_move_step s] obtain ev1 where e1: "trace w1 = trace w @ ev1" ..
    from Cons.IH obtain ev2 where e2: "trace (snd (move_loop e pg ps w1)) = trace w1 @ ev2"
      by blast
    show "\<exists>evs. trace (snd (move_loop e pg (p # ps) w)) = trace w @ evs"
      using s e1 e2 by (cases r) (simp_all split: bool.splits)
  qed
qed

lemma gr_bezier_mouse_move: "grows (bezier_mouse_move e pg s t)"
  unfolding bezier_mouse_move_def
  by (intro gr_basic gr_randint gr_bezier_curve_points gr_move_loop)

lemma gr_get_random_viewport_point: "grows (get_random_viewport_point e a b)"
  unfolding get_random_viewport_point_def
  by (intro gr_basic gr_randint)

lemma gr_add_human_noise_to_coords: "grows (add_human_noise_to_coords e x y k)"
  unfolding add_human_noise_to_coords_def
  by (intro gr_basic gr_randint)

section \<open>The dispatcher and the transport loop\<close>

text \<open>
  Claim C1 says that \<^verbatim>\<open>get_page_info\<close> sent before any \<^verbatim>\<open>init\<close> is answered with the
  result \<^verbatim>\<open>{"url":"","title":"","ready":false}\<close>. The handler is written for that case,
  but the guard of the loop exempts only \<^verbatim>\<open>init\<close> and \<^verbatim>\<open>close\<close>: run on the single line
  \<^verbatim>\<open>{"id":1,"method":"get_page_info","params":{}}\<close>, \<^verbatim>\<open>main\<close> writes the readiness
  notification and then the error "Browser not initialized".
\<close>

theorem get_page_info_before_init_is_refused:
  "out (main demo_env [with_newline line_get_page_info]) =
     [JObj [(''ready'', JBool True)],
      JObj [(''id'', JInt 1),
            (''error'', JObj [(''code'', JInt (- 32000)), (''message'', JStr not_initialized)])]]"
  by (simp add: main_def initial_world_def handle_line_def demo_strip demo_parse demo_nonempty
      demo_request_def handle_request_def methods_get_def METHODS_def send_error_def
      send_response_def)

lemma navigate_without_url:
  "map_of ps ''url'' = None \<Longrightarrow>
     handle_navigate e (JObj ps) w = (Inl (Exn ValueError ''url is required''), w)"
  by (simp add: handle_navigate_def bnd_def lift_def raise_def)

lemma click_element_without_selector:
  "map_of ps ''selector'' = None \<Longrightarrow>
     handle_click_element e (JObj ps) w = (Inl (Exn ValueError ''selector is required''), w)"
  by (simp add: handle_click_element_def bnd_def lift_def raise_def)

lemma type_text_without_selector:
  "map_of ps ''selector'' = None \<Longrightarrow>
     handle_type_text e (JObj ps) w = (Inl (Exn ValueError ''selector is required''), w)"
  by (simp add: handle_type_text_def bnd_def lift_def raise_def)

lemma execute_js_without_code:
  "map_of ps ''code'' = None \<Longrightarrow>
     handle_execute_js e (JObj ps) w = (Inl (Exn ValueError ''code is required''), w)"
  by (simp add: handle_execute_js_def bnd_def lift_def raise_def)

lemma METHODS_lookup:
  "map_of METHODS ''navigate'' = Some handle_navigate"
  "map_of METHODS ''click_element'' = Some handle_click_element"
  "map_of METHODS ''click_xy'' = Some handle_click_xy"
  "map_of METHODS ''type_text'' = Some handle_type_text"
  "map_of METHODS ''execute_js'' = Some handle_execute_js"
  by (simp_all add: METHODS_def)

lemma handle_request_raises:
  assumes "map_of kv ''method'' = Some (JStr m)" and "map_of METHODS m = Some h"
    and "page w \<noteq> None"
    and "py_get (JObj kv) ''params'' (JObj []) = Inr ps"
    and "h e ps w = (Inl x, w1)"
  shows "handle_request e (JObj kv) w =
           send_exception e (case map_of kv ''id'' of None \<Rightarrow> JInt 0 | Some i \<Rightarrow> i) x w1"
  using assms by (auto simp: handle_request_def methods_get_def)

lemma handle_request_returns:
  assumes "map_of kv ''method'' = Some (JStr m)" and "map_of METHODS m = Some h"
    and "page w \<noteq> None"
    and "py_get (JObj kv) ''params'' (JObj []) = Inr ps"
    and "h e ps w = (Inr r, w1)"
  shows "handle_request e (JObj kv) w =
           send_response (case map_of kv ''id'' of None \<Rightarrow> JInt 0 | Some i \<Rightarrow> i) r None w1"
  using assms by (auto simp: handle_request_def methods_get_def)

lemma send_exception_eq:
  "send_exception e i x w =
     w\<lparr>out := out w @
        [JObj [(''id'', i),
               (''error'',
                JObj [(''code'', JInt (- 32000)), (''message'', JStr (exn_str x)),
                      (''data'', JObj [(''traceback'', JStr (format_exc e x))])])]]\<rparr>"
  by (simp add: send_exception_def send_error_def send_response_def)

lemma required_parameter_raises:
  assumes "(m = ''navigate'' \<and> f = ''url'' \<or> m = ''click_element'' \<and> f = ''selector'' \<or>
     m = ''type_text'' \<and> f = ''selector'' \<or> m = ''execute_js'' \<and> f = ''code'')"
    and "map_of ps f = None"
  shows "\<exists>h. map_of METHODS m = Some h \<and>
             h e (JObj ps) w = (Inl (Exn ValueError (f @ '' is required'')), w)"
  using assms(1)
proof (elim disjE conjE)
  assume m: "m = ''navigate''" and f: "f = ''url''"
  from assms(2) show ?thesis
    unfolding m f by (simp add: METHODS_lookup navigate_without_url)
next
  assume m: "m = ''click_element''" and f: "f = ''selector''"
  from assms(2) show ?thesis
    unfolding m f by (simp add: METHODS_lookup click_element_without_selector)
next
  assume m: "m = ''type_text''" and f: "f = ''selector''"
  from assms(2) show ?thesis
    unfolding m f by (simp add: METHODS_lookup type_text_without_selector)
next
  assume m: "m = ''execute_js''" and f: "f = ''code''"
  from assms(2) show ?thesis
    unfolding m f by (simp add: METHODS_lookup execute_js_without_code)
qed

lemma click_xy_default_x:
  "map_of ps ''x'' = None \<Longrightarrow>
     handle_click_xy e (JObj ps) = handle_click_xy e (JObj ((''x'', JInt 0) # ps))"
  unfolding handle_click_xy_def by simp

lemma click_xy_default_y:
  "map_of ps ''y'' = None \<Longrightarrow>
     handle_click_xy e (JObj ps) = handle_click_xy e (JObj ((''y'', JInt 0) # ps))"
  unfolding handle_click_xy_def by simp

lemma bnd_InrE:
  assumes "bnd m f w = (Inr r, w1)"
  obtains v wa where "m w = (Inr v, wa)" and "f v wa = (Inr r, w1)"
  using assms by (auto simp: bnd_def split: prod.splits sum.splits)

lemma bnd_lift_Inr: "bnd (lift (Inr v)) f = f v"
  by (rule ext) (simp add: bnd_def lift_def)

text \<open>The part of \<^verbatim>\<open>handle_click_xy\<close> that moves the mouse, and the part that clicks.\<close>

lemma click_xy_shape:
  "handle_click_xy e (JObj ps) =
     bnd (lift (py_int e (case map_of ps ''x'' of None \<Rightarrow> JInt 0 | Some v \<Rightarrow> v))) (\<lambda>x.
     bnd (lift (py_int e (case map_of ps ''y'' of None \<Rightarrow> JInt 0 | Some v \<Rightarrow> v))) (\<lambda>y.
     bnd (config_get ''naturalMouseMovement'' (JBool True)) (\<lambda>natural.
     bnd (if py_truthy natural
          then
            bnd (config_get ''windowWidth'' (JInt 1920)) (\<lambda>width.
            bnd (config_get ''windowHeight'' (JInt 1080)) (\<lambda>height.
            bnd (get_random_viewport_point e width height) (\<lambda>start.
            bnd (add_human_noise_to_coords e x y 3) (\<lambda>target.
            bnd get_page (\<lambda>pg.
              bezier_mouse_move e pg start target)))))
          else ret ()) (\<lambda>_.
     bnd (page_call e ''actions.click'' [JInt x, JInt y]) (\<lambda>_.
     bnd (apply_human_delay e) (\<lambda>_.
       ret (JObj [(''success'', JBool True), (''x'', JInt x), (''y'', JInt y)])))))))"
  unfolding handle_click_xy_def by (simp add: bnd_lift_Inr)

lemma natural_move_frame:
  fixes e x y natural
  defines "N \<equiv> (if py_truthy natural
          then
            bnd (config_get ''windowWidth'' (JInt 1920)) (\<lambda>width.
            bnd (config_get ''windowHeight'' (JInt 1080)) (\<lambda>height.
            bnd (get_random_viewport_point e width height) (\<lambda>start.
            bnd (add_human_noise_to_coords e x y 3) (\<lambda>target.
            bnd get_page (\<lambda>pg.
              bezier_mouse_move e pg start target)))))
          else ret ())"
  shows "grows N" and "keeps_session N"
  unfolding N_def
  by (intro gr_basic gr_get_random_viewport_point gr_add_human_noise_to_coords gr_bezier_mouse_move,
      intro ks_helpers)

lemma click_then_delay:
  assumes pg: "page w = Some p"
  shows "\<exists>post. trace (snd (bnd (page_call e ''actions.click'' [JInt x, JInt y]) (\<lambda>_.
                     bnd (apply_human_delay e) (\<lambda>_. ret r)) w)) =
                 trace w @ Call ''page.actions.click'' [p, JInt x, JInt y] # post"
proof -
  let ?w2 = "w\<lparr>trace := trace w @ [Call ''page.actions.click'' [p, JInt x, JInt y]]\<rparr>"
  have c: "page_call e ''actions.click'' [JInt x, JInt y] w =
             (drv e (trace w) ''page.actions.click'' [p, JInt x, JInt y], ?w2)"
    using pg by (simp add: page_call_def method_call_def call_def)
  have "grows (bnd (apply_human_delay e) (\<lambda>_. ret r))"
    by (intro gr_basic gr_apply_human_delay)
  then obtain evs where
    d: "trace (snd (bnd (apply_human_delay e) (\<lambda>_. ret r) ?w2)) = trace ?w2 @ evs"
    unfolding grows_def by blast
  show ?thesis
    using c d by (cases "drv e (trace w) ''page.actions.click'' [p, JInt x, JInt y]")
      (simp_all add: bnd_def)
qed

lemma click_xy_clicks_first:
  assumes pg: "page w = Some p"
    and x: "py_int e (case map_of ps ''x'' of None \<Rightarrow> JInt 0 | Some v \<Rightarrow> v) = Inr x"
    and y: "py_int e (case map_of ps ''y'' of None \<Rightarrow> JInt 0 | Some v \<Rightarrow> v) = Inr y"
    and n: "py_get (config w) ''naturalMouseMovement'' (JBool True) = Inr natural"
    and off: "\<not> py_truthy natural"
  shows "\<exists>post. trace (snd (handle_click_xy e (JObj ps) w)) =
                  trace w @ Call ''page.actions.click'' [p, JInt x, JInt y] # post"
proof -
  have "handle_click_xy e (JObj ps) w =
          bnd (page_call e ''actions.click'' [JInt x, JInt y]) (\<lambda>_.
            bnd (apply_human_delay e) (\<lambda>_.
              ret (JObj [(''success'', JBool True), (''x'', JInt x), (''y'', JInt y)]))) w"
    unfolding click_xy_shape x y
    using n off by (simp add: bnd_def lift_def config_get_def ret_def)
  then show ?thesis using click_then_delay[OF pg] by simp
qed

lemma click_xy_returns:
  assumes run: "handle_click_xy e (JObj ps) w = (Inr r, w1)" and pg: "page w = Some p"
  shows "\<exists>x y pre post.
           py_int e (case map_of ps ''x'' of None \<Rightarrow> JInt 0 | Some v \<Rightarrow> v) = Inr x \<and>
           py_int e (case map_of ps ''y'' of None \<Rightarrow> JInt 0 | Some v \<Rightarrow> v) = Inr y \<and>
           r = JObj [(''success'', JBool True), (''x'', JInt x), (''y'', JInt y)] \<and>
           trace w1 = trace w @ pre @ Call ''page.actions.click'' [p, JInt x, JInt y] # post"
proof -
  from run[unfolded click_xy_shape] obtain x wa where
      x: "lift (py_int e (case map_of ps ''x'' of None \<Rightarrow> JInt 0 | Some v \<Rightarrow> v)) w = (Inr x, wa)"
    and r1: "bnd (lift (py_int e (case map_of ps ''y'' of None \<Rightarrow> JInt 0 | Some v \<Rightarrow> v))) (\<lambda>y.
     bnd (config_get ''naturalMouseMovement'' (JBool True)) (\<lambda>natural.
     bnd (if py_truthy natural
          then
            bnd (config_get ''windowWidth'' (JInt 1920)) (\<lambda>width.
            bnd (config_get ''windowHeight'' (JInt 1080)) (\<lambda>height.
            bnd (get_random_viewport_point e width height) (\<lambda>start.
            bnd (add_human_noise_to_coords e x y 3) (\<lambda>target.
            bnd get_page (\<lambda>pg.
              bezier_mouse_move e pg start target)))))
          else ret ()) (\<lambda>_.
     bnd (page_call e ''actions.click'' [JInt x, JInt y]) (\<lambda>_.
     bnd (apply_human_delay e) (\<lambda>_.
       ret (JObj [(''success'', JBool True), (''x'', JInt x), (''y'', JInt y)])))))) wa = (Inr r, w1)"
    by (rule bnd_InrE)
  from x have xv: "py_int e (case map_of ps ''x'' of None \<Rightarrow> JInt 0 | Some v \<Rightarrow> v) = Inr x"
    and wa: "wa = w" by (simp_all add: lift_def)
  from r1 obtain y wb where
      y: "lift (py_int e (case map_of ps ''y'' of None \<Rightarrow> JInt 0 | Some v \<Rightarrow> v)) wa = (Inr y, wb)"
    and r2: "bnd (config_get ''naturalMouseMovement'' (JBool True)) (\<lambda>natural.
     bnd (if py_truthy natural
          then
            bnd (config_get ''windowWidth'' (JInt 1920)) (\<lambda>width.
            bnd (config_get ''windowHeight'' (JInt 1080)) (\<lambda>height.
            bnd (get_random_viewport_point e width height) (\<lambda>start.
            bnd (add_human_noise_to_coords e x y 3) (\<lambda>target.
            bnd get_page (\<lambda>pg.
              bezier_mouse_move e pg start target)))))
          else ret ()) (\<lambda>_.
     bnd (page_call e ''actions.click'' [JInt x, JInt y]) (\<lambda>_.
     bnd (apply_human_delay e) (\<lambda>_.
       ret (JObj [(''success'', JBool True), (''x'', JInt x), (''y'', JInt y)]))))) wb = (Inr r, w1)"
    by (rule bnd_InrE)
  from y wa have yv: "py_int e (case map_of ps ''y'' of None \<Rightarrow> JInt 0 | Some v \<Rightarrow> v) = Inr y"
    and wb: "wb = w" by (simp_all add: lift_def)
  from r2 obtain natural wc where
      n: "config_get ''naturalMouseMovement'' (JBool True) wb = (Inr natural, wc)"
    and r3: "bnd (if py_truthy natural
          then
            bnd (config_get ''windowWidth'' (JInt 1920)) (\<lambda>width.
            bnd (config_get ''windowHeight'' (JInt 1080)) (\<lambda>height.
            bnd (get_random_viewport_point e width height) (\<lambda>start.
            bnd (add_human_noise_to_coords e x y 3) (\<lambda>target.
            bnd get_page (\<lambda>pg.
              bezier_mouse_move e pg start target)))))
          else ret ()) (\<lambda>_.
     bnd (page_call e ''actions.click'' [JInt x, JInt y]) (\<lambda>_.
     bnd (apply_human_delay e) (\<lambda>_.
       ret (JObj [(''success'', JBool True), (''x'', JInt x), (''y'', JInt y)])))) wc = (Inr r, w1)"
    by (rule bnd_InrE)
  from n wb have wc: "wc = w" by (simp add: config_get_def)
  from r3 obtain u wd where
      mv: "(if py_truthy natural
          then
            bnd (config_get ''windowWidth'' (JInt 1920)) (\<lambda>width.
            bnd (config_get ''windowHeight'' (JInt 1080)) (\<lambda>height.
            bnd (get_random_viewport_point e width height) (\<lambda>start.
            bnd (add_human_noise_to_coords e x y 3) (\<lambda>target.
            bnd get_page (\<lambda>pg.
              bezier_mouse_move e pg start target)))))
          else ret ()) wc = (Inr u, wd)"
    and r4: "bnd (page_call e ''actions.click'' [JInt x, JInt y]) (\<lambda>_.
     bnd (apply_human_delay e) (\<lambda>_.
       ret (JObj [(''success'', JBool True), (''x'', JInt x), (''y'', JInt y)]))) wd = (Inr r, w1)"
    by (rule bnd_InrE)
  from growsD[OF natural_move_frame(1) mv] wc obtain pre where pre: "trace wd = trace w @ pre"
    by auto
  from keeps_sessionD[OF natural_move_frame(2) mv] wc pg have pd: "page wd = Some p"
    by simp
  from click_then_delay[OF pd, of e x y "JObj [(''success'', JBool True), (''x'', JInt x), (''y'', JInt y)]"]
    r4 obtain post where
    post: "trace w1 = trace wd @ Call ''page.actions.click'' [p, JInt x, JInt y] # post"
    by auto
  from r4 obtain c we where "bnd (apply_human_delay e) (\<lambda>_.
       ret (JObj [(''success'', JBool True), (''x'', JInt x), (''y'', JInt y)])) we = (Inr r, w1)"
    by (rule bnd_InrE)
  then obtain d wf where
    "ret (JObj [(''success'', JBool True), (''x'', JInt x), (''y'', JInt y)]) wf = (Inr r, w1)"
    by (rule bnd_InrE)
  then have r: "r = JObj [(''success'', JBool True), (''x'', JInt x), (''y'', JInt y)]"
    by (simp add: ret_def)
  show ?thesis
    using xv yv r pre post by (intro exI[of _ x] exI[of _ y] exI[of _ pre] exI[of _ post]) simp
qed

lemma handle_line_request:
  "strip raw \<noteq> [] \<Longrightarrow> json_loads e (strip raw) = Inr req \<Longrightarrow>
     handle_line e raw w = handle_request e req w"
  by (simp add: handle_line_def Let_def)

lemma coordinate_read:
  assumes "map_of ps k = None \<and> x = 0 \<or> (\<exists>j. map_of ps k = Some j \<and> py_int e j = Inr x)"
  shows "py_int e (case map_of ps k of None \<Rightarrow> JInt 0 | Some v \<Rightarrow> v) = Inr x"
  using assms
proof (elim disjE conjE exE)
  assume "map_of ps k = None" and "x = 0"
  then show ?thesis by (simp add: py_int_def)
next
  fix j
  assume "map_of ps k = Some j" and "py_int e j = Inr x"
  then show ?thesis by simp
qed

lemma coordinate_read_back:
  assumes "py_int e (case map_of ps k of None \<Rightarrow> JInt 0 | Some v \<Rightarrow> v) = Inr x"
  shows "map_of ps k = None \<and> x = 0 \<or> (\<exists>j. map_of ps k = Some j \<and> py_int e j = Inr x)"
proof (cases "map_of ps k")
  case None
  with assms show ?thesis by (simp add: py_int_def)
next
  case (Some j)
  with assms show ?thesis by simp
qed

text \<open>
  Claim C2, as amended. Four handlers check a required parameter before anything else:
  \<^verbatim>\<open>url\<close> for navigate, \<^verbatim>\<open>selector\<close> for click_element and type_text, \<^verbatim>\<open>code\<close> for
  execute_js. With a live handle, a request that omits it is answered with the error code
  -32000 and the message "<field> is required", and nothing but the output changes (no
  driver call, no delay).

  \<^verbatim>\<open>handle_click_xy\<close> checks nothing: an omitted \<^verbatim>\<open>x\<close> or \<^verbatim>\<open>y\<close> is read as 0, a given one
  through \<^verbatim>\<open>int\<close>. For every request to click_xy that omits \<^verbatim>\<open>x\<close> or \<^verbatim>\<open>y\<close>, in every state
  with a live handle:
  \<^item> when natural mouse movement is switched off and the coordinate that is given, if any,
    converts, the first thing the request does is the driver call that clicks at the
    coordinates so read, whatever the driver answers;
  \<^item> whenever the handler returns, with or without mouse movement, the response is the
    success result with those coordinates and the driver was called to click there;
  \<^item> the handler does exactly what it does when the omitted coordinate is given as 0.
\<close>

theorem missing_required_parameter:
  "(strip raw \<noteq> [] \<and> json_loads e (strip raw) = Inr (JObj kv) \<and>
    map_of kv ''method'' = Some (JStr m) \<and>
    py_get (JObj kv) ''params'' (JObj []) = Inr (JObj ps) \<and>
    page w \<noteq> None \<and>
    (m = ''navigate'' \<and> f = ''url'' \<or> m = ''click_element'' \<and> f = ''selector'' \<or>
     m = ''type_text'' \<and> f = ''selector'' \<or> m = ''execute_js'' \<and> f = ''code'') \<and>
    map_of ps f = None
    \<longrightarrow> handle_line e raw w =
          w\<lparr>out := out w @
             [JObj [(''id'', case map_of kv ''id'' of None \<Rightarrow> JInt 0 | Some i \<Rightarrow> i),
                    (''error'',
                     JObj [(''code'', JInt (- 32000)),
                           (''message'', JStr (f @ '' is required'')),
                           (''data'', JObj [(''traceback'',
                              JStr (format_exc e (Exn ValueError (f @ '' is required''))))])])]]\<rparr>) \<and>
   (strip raw \<noteq> [] \<and> json_loads e (strip raw) = Inr (JObj kv) \<and>
    map_of kv ''method'' = Some (JStr ''click_xy'') \<and>
    py_get (JObj kv) ''params'' (JObj []) = Inr (JObj ps) \<and>
    page w = Some p \<and>
    (map_of ps ''x'' = None \<or> map_of ps ''y'' = None) \<and>
    (map_of ps ''x'' = None \<and> x = 0 \<or> (\<exists>j. map_of ps ''x'' = Some j \<and> py_int e j = Inr x)) \<and>
    (map_of ps ''y'' = None \<and> y = 0 \<or> (\<exists>j. map_of ps ''y'' = Some j \<and> py_int e j = Inr y)) \<and>
    py_get (config w) ''naturalMouseMovement'' (JBool True) = Inr natural \<and>
    \<not> py_truthy natural
    \<longrightarrow> (\<exists>post. trace (handle_line e raw w) =
                  trace w @ Call ''page.actions.click'' [p, JInt x, JInt y] # post)) \<and>
   (strip raw \<noteq> [] \<and> json_loads e (strip raw) = Inr (JObj kv) \<and>
    map_of kv ''method'' = Some (JStr ''click_xy'') \<and>
    py_get (JObj kv) ''params'' (JObj []) = Inr (JObj ps) \<and>
    page w = Some p \<and>
    (map_of ps ''x'' = None \<or> map_of ps ''y'' = None) \<and>
    handle_click_xy e (JObj ps) w = (Inr r, w1)
    \<longrightarrow> (\<exists>cx cy pre post.
           (map_of ps ''x'' = None \<and> cx = 0 \<or>
            (\<exists>j. map_of ps ''x'' = Some j \<and> py_int e j = Inr cx)) \<and>
           (map_of ps ''y'' = None \<and> cy = 0 \<or>
            (\<exists>j. map_of ps ''y'' = Some j \<and> py_int e j = Inr cy)) \<and>
           handle_line e raw w =
             w1\<lparr>out := out w1 @
                [JObj [(''id'', case map_of kv ''id'' of None \<Rightarrow> JInt 0 | Some i \<Rightarrow> i),
                       (''result'', JObj [(''success'', JBool True), (''x'', JInt cx),
                                          (''y'', JInt cy)])]]\<rparr> \<and>
           trace w1 = trace w @ pre @ Call ''page.actions.click'' [p, JInt cx, JInt cy] # post)) \<and>
   (map_of ps ''x'' = None \<longrightarrow>
      handle_click_xy e (JObj ps) = handle_click_xy e (JObj ((''x'', JInt 0) # ps))) \<and>
   (map_of ps ''y'' = None \<longrightarrow>
      handle_click_xy e (JObj ps) = handle_click_xy e (JObj ((''y'', JInt 0) # ps)))"
proof (intro conjI impI)
  assume a: "strip raw \<noteq> [] \<and> json_loads e (strip raw) = Inr (JObj kv) \<and>
    map_of kv ''method'' = Some (JStr m) \<and>
    py_get (JObj kv) ''params'' (JObj []) = Inr (JObj ps) \<and>
    page w \<noteq> None \<and>
    (m = ''navigate'' \<and> f = ''url'' \<or> m = ''click_element'' \<and> f = ''selector'' \<or>
     m = ''type_text'' \<and> f = ''selector'' \<or> m = ''execute_js'' \<and> f = ''code'') \<and>
    map_of ps f = None"
  note a1 = a[THEN conjunct1]
  note a2 = a[THEN conjunct2, THEN conjunct1]
  note a3 = a[THEN conjunct2, THEN conjunct2, THEN conjunct1]
  note a4 = a[THEN conjunct2, THEN conjunct2, THEN conjunct2, THEN conjunct1]
  note a5 = a[THEN conjunct2, THEN conjunct2, THEN conjunct2, THEN conjunct2, THEN conjunct1]
  note a6 = a[THEN conjunct2, THEN conjunct2, THEN conjunct2, THEN conjunct2, THEN conjunct2,
      THEN conjunct1]
  note a7 = a[THEN conjunct2, THEN conjunct2, THEN conjunct2, THEN conjunct2, THEN conjunct2,
      THEN conjunct2]
  obtain h where h: "map_of METHODS m = Some h"
      "h e (JObj ps) w = (Inl (Exn ValueError (f @ '' is required'')), w)"
    using required_parameter_raises[OF a6 a7, of e w] by (elim exE conjE) simp
  have "handle_request e (JObj kv) w =
          send_exception e (case map_of kv ''id'' of None \<Rightarrow> JInt 0 | Some i \<Rightarrow> i)
            (Exn ValueError (f @ '' is required'')) w"
    by (rule handle_request_raises[OF a3 h(1) a5 a4 h(2)])
  moreover have "handle_line e raw w = handle_request e (JObj kv) w"
    using a1 a2 by (simp add: handle_line_def Let_def)
  ultimately show "handle_line e raw w =
          w\<lparr>out := out w @
             [JObj [(''id'', case map_of kv ''id'' of None \<Rightarrow> JInt 0 | Some i \<Rightarrow> i),
                    (''error'',
                     JObj [(''code'', JInt (- 32000)),
                           (''message'', JStr (f @ '' is required'')),
                           (''data'', JObj [(''traceback'',
                              JStr (format_exc e (Exn ValueError (f @ '' is required''))))])])]]\<rparr>"
    by (simp add: send_exception_eq)
next
  assume a: "strip raw \<noteq> [] \<and> json_loads e (strip raw) = Inr (JObj kv) \<and>
    map_of kv ''method'' = Some (JStr ''click_xy'') \<and>
    py_get (JObj kv) ''params'' (JObj []) = Inr (JObj ps) \<and>
    page w = Some p \<and>
    (map_of ps ''x'' = None \<or> map_of ps ''y'' = None) \<and>
    (map_of ps ''x'' = None \<and> x = 0 \<or> (\<exists>j. map_of ps ''x'' = Some j \<and> py_int e j = Inr x)) \<and>
    (map_of ps ''y'' = None \<and> y = 0 \<or> (\<exists>j. map_of ps ''y'' = Some j \<and> py_int e j = Inr y)) \<and>
    py_get (config w) ''naturalMouseMovement'' (JBool True) = Inr natural \<and>
    \<not> py_truthy natural"
  note a1 = a[THEN conjunct1]
  note a2 = a[THEN conjunct2, THEN conjunct1]
  note a3 = a[THEN conjunct2, THEN conjunct2, THEN conjunct1]
  note a4 = a[THEN conjunct2, THEN conjunct2, THEN conjunct2, THEN conjunct1]
  note a5 = a[THEN conjunct2, THEN conjunct2, THEN conjunct2, THEN conjunct2, THEN conjunct1]
  note b = a[THEN conjunct2, THEN conjunct2, THEN conjunct2, THEN conjunct2, THEN conjunct2,
      THEN conjunct2]
  note b1 = b[THEN conjunct1]
  note b2 = b[THEN conjunct2, THEN conjunct1]
  note b3 = b[THEN conjunct2, THEN conjunct2, THEN conjunct1]
  note b4 = b[THEN conjunct2, THEN conjunct2, THEN conjunct2]
  from a5 have live: "page w \<noteq> None" by simp
  obtain post where post: "trace (snd (handle_click_xy e (JObj ps) w)) =
      trace w @ Call ''page.actions.click'' [p, JInt x, JInt y] # post"
    using click_xy_clicks_first[OF a5 coordinate_read[OF b1] coordinate_read[OF b2] b3 b4] ..
  obtain res wz where run: "handle_click_xy e (JObj ps) w = (res, wz)"
    by (cases "handle_click_xy e (JObj ps) w")
  have "trace (handle_request e (JObj kv) w) = trace wz"
  proof (cases res)
    case (Inl ex)
    show ?thesis
      unfolding handle_request_raises[OF a3 METHODS_lookup(3) live a4 run[unfolded Inl]]
      by simp
  next
    case (Inr v)
    show ?thesis
      unfolding handle_request_returns[OF a3 METHODS_lookup(3) live a4 run[unfolded Inr]]
      by simp
  qed
  with post run have "trace (handle_line e raw w) =
      trace w @ Call ''page.actions.click'' [p, JInt x, JInt y] # post"
    by (simp add: handle_line_request[OF a1 a2])
  then show "\<exists>post. trace (handle_line e raw w) =
      trace w @ Call ''page.actions.click'' [p, JInt x, JInt y] # post" ..
next
  assume a: "strip raw \<noteq> [] \<and> json_loads e (strip raw) = Inr (JObj kv) \<and>
    map_of kv ''method'' = Some (JStr ''click_xy'') \<and>
    py_get (JObj kv) ''params'' (JObj []) = Inr (JObj ps) \<and>
    page w = Some p \<and>
    (map_of ps ''x'' = None \<or> map_of ps ''y'' = None) \<and>
    handle_click_xy e (JObj ps) w = (Inr r, w1)"
  note a1 = a[THEN conjunct1]
  note a2 = a[THEN conjunct2, THEN conjunct1]
  note a3 = a[THEN conjunct2, THEN conjunct2, THEN conjunct1]
  note a4 = a[THEN conjunct2, THEN conjunct2, THEN conjunct2, THEN conjunct1]
  note a5 = a[THEN conjunct2, THEN conjunct2, THEN conjunct2, THEN conjunct2, THEN conjunct1]
  note run = a[THEN conjunct2, THEN conjunct2, THEN conjunct2, THEN conjunct2, THEN conjunct2,
      THEN conjunct2]
  from a5 have live: "page w \<noteq> None" by simp
  from click_xy_returns[OF run a5] obtain cx cy pre post where
      cx: "py_int e (case map_of ps ''x'' of None \<Rightarrow> JInt 0 | Some v \<Rightarrow> v) = Inr cx"
    and cy: "py_int e (case map_of ps ''y'' of None \<Rightarrow> JInt 0 | Some v \<Rightarrow> v) = Inr cy"
    and r: "r = JObj [(''success'', JBool True), (''x'', JInt cx), (''y'', JInt cy)]"
    and tr: "trace w1 = trace w @ pre @ Call ''page.actions.click'' [p, JInt cx, JInt cy] # post"
    by (elim exE conjE)
  have "handle_line e raw w =
          send_response (case map_of kv ''id'' of None \<Rightarrow> JInt 0 | Some i \<Rightarrow> i) r None w1"
    unfolding handle_line_request[OF a1 a2]
    by (rule handle_request_returns[OF a3 METHODS_lookup(3) live a4 run])
  then have out: "handle_line e raw w =
             w1\<lparr>out := out w1 @
                [JObj [(''id'', case map_of kv ''id'' of None \<Rightarrow> JInt 0 | Some i \<Rightarrow> i),
                       (''result'', JObj [(''success'', JBool True), (''x'', JInt cx),
                                          (''y'', JInt cy)])]]\<rparr>"
    by (simp add: send_response_def r)
  show "\<exists>cx cy pre post.
           (map_of ps ''x'' = None \<and> cx = 0 \<or>
            (\<exists>j. map_of ps ''x'' = Some j \<and> py_int e j = Inr cx)) \<and>
           (map_of ps ''y'' = None \<and> cy = 0 \<or>
            (\<exists>j. map_of ps ''y'' = Some j \<and> py_int e j = Inr cy)) \<and>
           handle_line e raw w =
             w1\<lparr>out := out w1 @
                [JObj [(''id'', case map_of kv ''id'' of None \<Rightarrow> JInt 0 | Some i \<Rightarrow> i),
                       (''result'', JObj [(''success'', JBool True), (''x'', JInt cx),
                                          (''y'', JInt cy)])]]\<rparr> \<and>
           trace w1 = trace w @ pre @ Call ''page.actions.click'' [p, JInt cx, JInt cy] # post"
    by (intro exI[of _ cx] exI[of _ cy] exI[of _ pre] exI[of _ post] conjI
        coordinate_read_back[OF cx] coordinate_read_back[OF cy] out tr)
qed (rule click_xy_default_x, assumption, rule click_xy_default_y, assumption)

text \<open>
  The claim as stated fails for \<^verbatim>\<open>click_xy\<close>: with a live handle and natural mouse
  movement switched off, the request \<^verbatim>\<open>{"id":5,"method":"click_xy","params":{}}\<close> is not
  refused; the driver is told to click at (0, 0) and the response reports success.
\<close>

theorem click_xy_without_coordinates_clicks:
  "handle_line demo_env (with_newline line_click_xy) demo_ready =
     demo_ready\<lparr>trace := [Call ''page.actions.click'' [JStr ''page'', JInt 0, JInt 0], Sleep (1 / 5)],
                rcount := 1,
                out := [JObj [(''id'', JInt 5),
                              (''result'', JObj [(''success'', JBool True), (''x'', JInt 0),
                                                 (''y'', JInt 0)])]]\<rparr>"
  by (simp add: handle_line_def Let_def demo_strip demo_parse demo_nonempty demo_request_def
      handle_request_def methods_get_def METHODS_def demo_ready_def
      handle_click_xy_def bnd_def lift_def ret_def py_int_def config_get_def
      page_call_def method_call_def call_def apply_human_delay_def get_delay_range_def
      random_delay_def uniform_def py_random_def py_sleep_def send_response_def demo_env_simps)

lemma demo_click_xy_run:
  "handle_click_xy demo_env (JObj []) demo_ready =
     (Inr (JObj [(''success'', JBool True), (''x'', JInt 0), (''y'', JInt 0)]),
      demo_ready\<lparr>trace := [Call ''page.actions.click'' [JStr ''page'', JInt 0, JInt 0],
                           Sleep (1 / 5)],
                 rcount := 1\<rparr>)"
  by (simp add: demo_ready_def
      handle_click_xy_def bnd_def lift_def ret_def py_int_def config_get_def
      page_call_def method_call_def call_def apply_human_delay_def get_delay_range_def
      random_delay_def uniform_def py_random_def py_sleep_def demo_env_simps)

theorem missing_required_parameter_witness:
  "handle_line demo_env (with_newline line_navigate_no_url) demo_ready =
     demo_ready\<lparr>out :=
       [JObj [(''id'', JInt 2),
              (''error'',
               JObj [(''code'', JInt (- 32000)), (''message'', JStr ''url is required''),
                     (''data'', JObj [(''traceback'', JStr ''Traceback (most recent call last): ...'')])])]]\<rparr> \<and>
   (\<exists>post. trace (handle_line demo_env (with_newline line_click_xy) demo_ready) =
            trace demo_ready @ Call ''page.actions.click'' [JStr ''page'', JInt 0, JInt 0] # post) \<and>
   (\<exists>pre post.
      handle_line demo_env (with_newline line_click_xy) demo_ready =
        demo_ready\<lparr>trace := [Call ''page.actions.click'' [JStr ''page'', JInt 0, JInt 0],
                             Sleep (1 / 5)],
                   rcount := 1,
                   out := [JObj [(''id'', JInt 5),
                                 (''result'', JObj [(''success'', JBool True), (''x'', JInt 0),
                                                    (''y'', JInt 0)])]]\<rparr> \<and>
      [Call ''page.actions.click'' [JStr ''page'', JInt 0, JInt 0], Sleep (1 / 5)] =
        trace demo_ready @ pre @ Call ''page.actions.click'' [JStr ''page'', JInt 0, JInt 0] # post) \<and>
   handle_click_xy demo_env (JObj []) = handle_click_xy demo_env (JObj [(''x'', JInt 0)]) \<and>
   handle_click_xy demo_env (JObj []) = handle_click_xy demo_env (JObj [(''y'', JInt 0)])"
proof -
  note h = missing_required_parameter[where raw = "with_newline line_navigate_no_url"
        and e = demo_env and m = "''navigate''" and f = "''url''" and ps = "[]" and w = demo_ready
        and kv = "[(''id'', JInt 2), (''method'', JStr ''navigate''), (''params'', JObj [])]"]
  note k = missing_required_parameter[where raw = "with_newline line_click_xy"
        and e = demo_env and ps = "[]" and w = demo_ready and p = "JStr ''page''"
        and x = 0 and y = 0 and natural = "JBool False"
        and r = "JObj [(''success'', JBool True), (''x'', JInt 0), (''y'', JInt 0)]"
        and ?w1.0 = "demo_ready\<lparr>trace := [Call ''page.actions.click'' [JStr ''page'', JInt 0, JInt 0],
                           Sleep (1 / 5)], rcount := 1\<rparr>"
        and kv = "[(''id'', JInt 5), (''method'', JStr ''click_xy''), (''params'', JObj [])]"]
  have a: "handle_line demo_env (with_newline line_navigate_no_url) demo_ready =
     demo_ready\<lparr>out :=
       [JObj [(''id'', JInt 2),
              (''error'',
               JObj [(''code'', JInt (- 32000)), (''message'', JStr ''url is required''),
                     (''data'', JObj [(''traceback'', JStr ''Traceback (most recent call last): ...'')])])]]\<rparr>"
    using h[THEN conjunct1]
    by (simp add: demo_strip demo_parse demo_nonempty demo_request_def demo_ready_def
        demo_env_simps)
  have b: "\<exists>post. trace (handle_line demo_env (with_newline line_click_xy) demo_ready) =
            trace demo_ready @ Call ''page.actions.click'' [JStr ''page'', JInt 0, JInt 0] # post"
    using k[THEN conjunct2, THEN conjunct1]
    by (simp add: demo_strip demo_parse demo_nonempty demo_request_def demo_ready_def)
  have c: "\<exists>pre post.
      handle_line demo_env (with_newline line_click_xy) demo_ready =
        demo_ready\<lparr>trace := [Call ''page.actions.click'' [JStr ''page'', JInt 0, JInt 0],
                             Sleep (1 / 5)],
                   rcount := 1,
                   out := [JObj [(''id'', JInt 5),
                                 (''result'', JObj [(''success'', JBool True), (''x'', JInt 0),
                                                    (''y'', JInt 0)])]]\<rparr> \<and>
      [Call ''page.actions.click'' [JStr ''page'', JInt 0, JInt 0], Sleep (1 / 5)] =
        trace demo_ready @ pre @ Call ''page.actions.click'' [JStr ''page'', JInt 0, JInt 0] # post"
    using k[THEN conjunct2, THEN conjunct2, THEN conjunct1]
    by (simp add: demo_strip demo_parse demo_nonempty demo_request_def demo_click_xy_run)
      (simp add: demo_ready_def)
  have d: "handle_click_xy demo_env (JObj []) = handle_click_xy demo_env (JObj [(''x'', JInt 0)])"
    using h[THEN conjunct2, THEN conjunct2, THEN conjunct2, THEN conjunct1] by simp
  have f: "handle_click_xy demo_env (JObj []) = handle_click_xy demo_env (JObj [(''y'', JInt 0)])"
    using h[THEN conjunct2, THEN conjunct2, THEN conjunct2, THEN conjunct2] by simp
  show ?thesis
    by (intro conjI a b c d f)
qed

text \<open>
  Claim C3: while \<^verbatim>\<open>_page\<close> is \<^verbatim>\<open>None\<close>, a request for one of the nine methods
  navigate, click_element, click_xy, type_text, screenshot, get_dom_map, scroll, wait,
  execute_js is answered with an error response (code -32000, "Browser not initialized")
  under the request's id, and nothing else of the state changes: no driver call is
  recorded, and the configuration and the handle stay as they were.
\<close>

theorem ready_only_methods_need_init:
  assumes "page w = None"
    and "m \<in> {''navigate'', ''click_element'', ''click_xy'', ''type_text'', ''screenshot'',
              ''get_dom_map'', ''scroll'', ''wait'', ''execute_js''}"
    and "strip raw \<noteq> []"
    and "json_loads e (strip raw) = Inr (JObj kv)"
    and "map_of kv ''method'' = Some (JStr m)"
  shows "handle_line e raw w =
           w\<lparr>out := out w @
              [JObj [(''id'', case map_of kv ''id'' of None \<Rightarrow> JInt 0 | Some i \<Rightarrow> i),
                     (''error'', JObj [(''code'', JInt (- 32000)),
                                       (''message'', JStr not_initialized)])]]\<rparr>"
  using assms
  by (auto simp: handle_line_def Let_def handle_request_def methods_get_def METHODS_def
      send_error_def send_response_def)

theorem ready_only_methods_need_init_witness:
  "handle_line demo_env (with_newline line_navigate_no_url) initial_world =
     initial_world\<lparr>out := [JObj [(''id'', JInt 2),
        (''error'', JObj [(''code'', JInt (- 32000)), (''message'', JStr not_initialized)])]]\<rparr>"
  using ready_only_methods_need_init[of initial_world "''navigate''"
      "with_newline line_navigate_no_url" demo_env
      "[(''id'', JInt 2), (''method'', JStr ''navigate''), (''params'', JObj [])]"]
  by (simp add: demo_strip demo_parse demo_nonempty demo_request_def initial_world_def)

lemma handle_close_eq:
  "handle_close e params w =
     (Inr (JObj [(''status'', JStr ''closed'')]),
      case page w of
        None \<Rightarrow> w
      | Some p \<Rightarrow> w\<lparr>page := None, trace := trace w @ [Call ''page.quit'' [p]]\<rparr>)"
  by (simp add: handle_close_def bnd_def get_page_def swallow_def set_page_def ret_def
      page_call_def method_call_def call_def split: option.splits)

lemma close_request:
  assumes "strip raw \<noteq> []" and "json_loads e (strip raw) = Inr (JObj kv)"
    and "map_of kv ''method'' = Some (JStr ''close'')"
  shows "handle_line e raw w =
           (case page w of
              None \<Rightarrow> w
            | Some p \<Rightarrow> w\<lparr>page := None, trace := trace w @ [Call ''page.quit'' [p]]\<rparr>)
           \<lparr>out := out w @
              [JObj [(''id'', case map_of kv ''id'' of None \<Rightarrow> JInt 0 | Some i \<Rightarrow> i),
                     (''result'', JObj [(''status'', JStr ''closed'')])]]\<rparr>"
  using assms
  by (simp add: handle_line_def Let_def handle_request_def methods_get_def METHODS_def
      handle_close_eq send_response_def split: option.splits)

text \<open>
  Claim C6: \<^verbatim>\<open>handle_close\<close> never raises. A \<^verbatim>\<open>close\<close> request is answered with the result
  \<^verbatim>\<open>{"status":"closed"}\<close> and leaves \<^verbatim>\<open>_page\<close> at \<^verbatim>\<open>None\<close>; the only driver call is one
  \<^verbatim>\<open>quit\<close> when there was a handle, none when there was not; sent again at once, the same
  request gets the same answer and changes nothing but the output.
\<close>

theorem close_is_idempotent:
  assumes "strip raw \<noteq> []" and "json_loads e (strip raw) = Inr (JObj kv)"
    and "map_of kv ''method'' = Some (JStr ''close'')"
  shows "let resp = JObj [(''id'', case map_of kv ''id'' of None \<Rightarrow> JInt 0 | Some i \<Rightarrow> i),
                          (''result'', JObj [(''status'', JStr ''closed'')])];
             w1 = handle_line e raw w;
             w2 = handle_line e raw w1
         in fst (handle_close e params w) = Inr (JObj [(''status'', JStr ''closed'')]) \<and>
            w1 = (case page w of
                    None \<Rightarrow> w
                  | Some p \<Rightarrow> w\<lparr>page := None, trace := trace w @ [Call ''page.quit'' [p]]\<rparr>)
                 \<lparr>out := out w @ [resp]\<rparr> \<and>
            page w1 = None \<and>
            w2 = w1\<lparr>out := out w1 @ [resp]\<rparr>"
proof -
  have p1: "page (handle_line e raw w) = None"
    by (simp add: close_request[OF assms] split: option.splits)
  show ?thesis
    unfolding Let_def
    by (intro conjI, simp add: handle_close_eq, rule close_request[OF assms], rule p1)
       (simp add: close_request[OF assms, of "handle_line e raw w"] p1)
qed

theorem close_is_idempotent_witness:
  "(let w1 = handle_line demo_env (with_newline line_close) demo_ready;
        w2 = handle_line demo_env (with_newline line_close) w1
    in w1 = demo_ready\<lparr>page := None, trace := [Call ''page.quit'' [JStr ''page'']],
               out := [JObj [(''id'', JInt 4), (''result'', JObj [(''status'', JStr ''closed'')])]]\<rparr> \<and>
       w2 = w1\<lparr>out := [JObj [(''id'', JInt 4), (''result'', JObj [(''status'', JStr ''closed'')])],
                        JObj [(''id'', JInt 4), (''result'', JObj [(''status'', JStr ''closed'')])]]\<rparr>)"
proof -
  have a: "strip (with_newline line_close) \<noteq> []"
    by (simp add: demo_strip demo_nonempty)
  have b: "json_loads demo_env (strip (with_newline line_close)) =
             Inr (JObj [(''id'', JInt 4), (''method'', JStr ''close''), (''params'', JObj [])])"
    by (simp add: demo_strip demo_parse demo_request_def)
  have c: "map_of [(''id'', JInt 4), (''method'', JStr ''close''), (''params'', JObj [])] ''method'' =
             Some (JStr ''close'')"
    by simp
  note h = close_is_idempotent[OF a b c, where params = JNull and w = demo_ready, unfolded Let_def]
  have w1: "handle_line demo_env (with_newline line_close) demo_ready =
              demo_ready\<lparr>page := None, trace := [Call ''page.quit'' [JStr ''page'']],
                out := [JObj [(''id'', JInt 4), (''result'', JObj [(''status'', JStr ''closed'')])]]\<rparr>"
    using h[THEN conjunct2, THEN conjunct1] by (simp add: demo_ready_def)
  have w2: "handle_line demo_env (with_newline line_close)
              (handle_line demo_env (with_newline line_close) demo_ready) =
            (handle_line demo_env (with_newline line_close) demo_ready)
              \<lparr>out := out (handle_line demo_env (with_newline line_close) demo_ready) @
                 [JObj [(''id'', JInt 4), (''result'', JObj [(''status'', JStr ''closed'')])]]\<rparr>"
    using h[THEN conjunct2, THEN conjunct2, THEN conjunct2] by simp
  show ?thesis
    unfolding Let_def w2 unfolding w1 by (simp add: demo_ready_def)
qed

text \<open>
  Claim C7: a line that is not blank and that \<^verbatim>\<open>json.loads\<close> rejects makes the loop write
  exactly one response, an error with id 0, and go on with the lines that follow.
\<close>

theorem malformed_line_answered:
  assumes "strip raw \<noteq> []" and "json_loads e (strip raw) = Inl x"
  shows "main_loop e (raw # rest) w =
           main_loop e rest
             (w\<lparr>out := out w @
                [JObj [(''id'', JInt 0),
                       (''error'', JObj [(''code'', JInt (- 32000)), (''message'', JStr (exn_str x)),
                                         (''data'', JObj [(''traceback'', JStr (format_exc e x))])])]]\<rparr>)"
  using assms
  by (simp add: handle_line_def Let_def send_exception_def send_error_def send_response_def)

theorem malformed_line_answered_witness:
  "main_loop demo_env [(with_newline line_garbage), with_newline line_frobnicate] initial_world =
     initial_world\<lparr>out :=
       [JObj [(''id'', JInt 0),
              (''error'', JObj [(''code'', JInt (- 32000)),
                 (''message'', JStr ''Expecting value: line 1 column 1 (char 0)''),
                 (''data'', JObj [(''traceback'', JStr ''Traceback (most recent call last): ...'')])])],
        JObj [(''id'', JInt 3),
              (''error'', JObj [(''code'', JInt (- 32601)),
                 (''message'', JStr ''Method not found: frobnicate'')])]]\<rparr>"
proof -
  have a: "strip (with_newline line_garbage) \<noteq> []"
    by (simp add: demo_strip demo_nonempty)
  have b: "json_loads demo_env (strip (with_newline line_garbage)) =
             Inl (Exn JSONDecodeError ''Expecting value: line 1 column 1 (char 0)'')"
    by (simp add: demo_strip demo_parse)
  have c: "format_exc demo_env x = ''Traceback (most recent call last): ...''" for x
    by (simp add: demo_env_def)
  show ?thesis
    unfolding malformed_line_answered[OF a b]
    by (simp add: demo_strip demo_parse demo_nonempty demo_request_def initial_world_def
        handle_line_def Let_def handle_request_def methods_get_def METHODS_def send_error_def
        send_response_def py_str_def c)
qed



text \<open>
  Claim C10: a line asking for a method other than \<^verbatim>\<open>init\<close> leaves \<^verbatim>\<open>_config\<close> as it
  was, and a line asking for a method other than \<^verbatim>\<open>init\<close> and \<^verbatim>\<open>close\<close> leaves \<^verbatim>\<open>_page\<close>
  as it was too, whether the request succeeds or fails (a blank line, a malformed line
  and an unknown method included).
\<close>

theorem session_written_only_by_init_and_close:
  "(line_method e raw \<noteq> Some (JStr ''init'') \<longrightarrow> config (handle_line e raw w) = config w) \<and>
   (line_method e raw \<noteq> Some (JStr ''init'') \<and> line_method e raw \<noteq> Some (JStr ''close'')
      \<longrightarrow> page (handle_line e raw w) = page w)"
proof (cases "json_loads e (strip raw)")
  case (Inl x)
  then show ?thesis by (simp add: handle_line_def Let_def)
next
  case (Inr req)
  have c: "config (handle_request e req w) = config w"
    if "line_method e raw \<noteq> Some (JStr ''init'')"
    using that Inr by (intro handle_request_config) (auto simp: line_method_def)
  have p: "page (handle_request e req w) = page w"
    if "line_method e raw \<noteq> Some (JStr ''init'')" "line_method e raw \<noteq> Some (JStr ''close'')"
    using that Inr by (intro handle_request_page) (auto simp: line_method_def)
  show ?thesis using Inr c p by (simp add: handle_line_def Let_def)
qed

theorem session_written_only_by_init_and_close_witness:
  "line_method demo_env (with_newline line_scroll) = Some (JStr ''scroll'') \<and>
   config (handle_line demo_env (with_newline line_scroll) demo_ready) = config demo_ready \<and>
   page (handle_line demo_env (with_newline line_scroll) demo_ready) = page demo_ready"
  using session_written_only_by_init_and_close[of demo_env "with_newline line_scroll" demo_ready]
  by (simp add: line_method_def demo_strip demo_parse demo_request_def)

section \<open>The humanization helpers\<close>

lemma py_random_unit:
  "\<exists>r. 0 \<le> r \<and> r < 1 \<and> py_random e w = (Inr r, w\<lparr>rcount := Suc (rcount w)\<rparr>)"
proof -
  have "(rnd e (rcount w) mod 2 ^ 53) < (2 ^ 53 :: nat)" by simp
  then have "real (rnd e (rcount w) mod 2 ^ 53) < 2 ^ 53"
    by (metis of_nat_less_iff of_nat_numeral of_nat_power)
  then have "real (rnd e (rcount w) mod 2 ^ 53) / 2 ^ 53 < 1" by simp
  moreover have "0 \<le> real (rnd e (rcount w) mod 2 ^ 53) / 2 ^ 53" by simp
  ultimately show ?thesis
    unfolding py_random_def
    by (intro exI[of _ "real (rnd e (rcount w) mod 2 ^ 53) / 2 ^ 53"] conjI refl)
qed

lemma uniform_between:
  assumes "a \<le> b"
  shows "\<exists>v. a \<le> v \<and> v \<le> b \<and> uniform e a b w = (Inr v, w\<lparr>rcount := Suc (rcount w)\<rparr>)"
proof -
  obtain r where r: "0 \<le> r" "r < 1" "py_random e w = (Inr r, w\<lparr>rcount := Suc (rcount w)\<rparr>)"
    using py_random_unit by blast
  have "0 \<le> (b - a) * r" using assms r by simp
  moreover have "(b - a) * r \<le> (b - a) * 1"
    using assms r by (intro mult_left_mono) simp_all
  ultimately have "a \<le> a + (b - a) * r" "a + (b - a) * r \<le> b" by simp_all
  then show ?thesis using r(3) by (simp add: uniform_def bnd_def ret_def)
qed

lemma random_delay_100_300:
  "\<exists>s. 0 \<le> s \<and>
       random_delay e (JInt 100) (JInt 300) w =
         (Inr (), w\<lparr>rcount := Suc (rcount w), trace := trace w @ [Sleep s]\<rparr>)"
proof -
  obtain v where v: "100 \<le> v" "uniform e 100 300 w = (Inr v, w\<lparr>rcount := Suc (rcount w)\<rparr>)"
    using uniform_between[of 100 300 e w] by auto
  then have "0 \<le> v / 1000" by simp
  then show ?thesis using v
    by (intro exI[of _ "v / 1000"]) (simp add: random_delay_def bnd_def py_sleep_def)
qed

lemma bnd_assoc: "bnd (bnd m f) g = bnd m (\<lambda>x. bnd (f x) g)"
  by (rule ext) (simp add: bnd_def split: prod.splits sum.splits)

lemma bnd_Inr: "m w = (Inr v, w1) \<Longrightarrow> bnd m f w = f v w1"
  by (simp add: bnd_def)

lemma bnd_Inl: "m w = (Inl x, w1) \<Longrightarrow> bnd m f w = (Inl x, w1)"
  by (simp add: bnd_def)

text \<open>The delta \<^verbatim>\<open>random_scroll_jitter\<close> settles on, and the draws that takes.\<close>

lemma jitter_delta:
  assumes "0 \<le> max_delta"
  shows "\<exists>delta n. delta \<noteq> 0 \<and> (\<bar>delta\<bar> \<le> max_delta \<or> \<bar>delta\<bar> = 30) \<and>
           bnd (randint e (- max_delta) max_delta)
             (\<lambda>d0. if d0 = 0 then bnd (randbelow e 2) (\<lambda>k. ret (if k = 0 then - 30 else 30))
                   else ret d0) w =
           (Inr delta, w\<lparr>rcount := rcount w + n\<rparr>)"
proof -
  define k where "k = rnd e (rcount w) mod nat (max_delta - - max_delta + 1)"
  have kb: "int k \<le> 2 * max_delta"
  proof -
    have "0 < nat (max_delta - - max_delta + 1)" using assms by simp
    then have "k < nat (max_delta - - max_delta + 1)" unfolding k_def by (rule mod_less_divisor)
    then show ?thesis using assms by simp
  qed
  have ri: "randint e (- max_delta) max_delta w =
              (Inr (- max_delta + int k), w\<lparr>rcount := Suc (rcount w)\<rparr>)"
    using assms by (simp add: randint_def randbelow_def bnd_def ret_def k_def)
  show ?thesis
  proof (cases "- max_delta + int k = 0")
    case True
    let ?c = "if rnd e (Suc (rcount w)) mod 2 = 0 then - 30 else (30::int)"
    have "?c \<noteq> 0" "\<bar>?c\<bar> = 30" by simp_all
    moreover have "bnd (randint e (- max_delta) max_delta)
             (\<lambda>d0. if d0 = 0 then bnd (randbelow e 2) (\<lambda>k. ret (if k = 0 then - 30 else 30))
                   else ret d0) w = (Inr ?c, w\<lparr>rcount := rcount w + 2\<rparr>)"
      using True by (simp add: bnd_def ri randbelow_def ret_def)
    ultimately show ?thesis by blast
  next
    case False
    have "\<bar>- max_delta + int k\<bar> \<le> max_delta" using kb by simp
    moreover have "bnd (randint e (- max_delta) max_delta)
             (\<lambda>d0. if d0 = 0 then bnd (randbelow e 2) (\<lambda>k. ret (if k = 0 then - 30 else 30))
                   else ret d0) w = (Inr (- max_delta + int k), w\<lparr>rcount := rcount w + 1\<rparr>)"
      using False by (simp add: bnd_def ri ret_def)
    ultimately show ?thesis using False by blast
  qed
qed

text \<open>
  Claim C9: for every \<^verbatim>\<open>max_delta\<close> of at least 1, \<^verbatim>\<open>random_scroll_jitter\<close> returns
  normally after settling on a delta that is not zero (a draw from the range, or 30 or -30
  when the draw was zero). With a page it makes exactly one driver call, \<^verbatim>\<open>scroll.down\<close> of
  the delta when it is positive and \<^verbatim>\<open>scroll.up\<close> of its absolute value otherwise, so the
  amount scrolled is always positive; one sleep follows.
\<close>

theorem scroll_jitter_never_zero:
  assumes "1 \<le> max_delta"
  shows "\<exists>delta s n. delta \<noteq> 0 \<and> (\<bar>delta\<bar> \<le> max_delta \<or> \<bar>delta\<bar> = 30) \<and> 0 \<le> s \<and>
           random_scroll_jitter e pg max_delta w =
             (Inr (),
              w\<lparr>rcount := rcount w + n,
                trace := trace w @
                  (case pg of
                     None \<Rightarrow> []
                   | Some p \<Rightarrow>
                       [if 0 < delta then Call ''page.scroll.down'' [p, JInt delta]
                        else Call ''page.scroll.up'' [p, JInt \<bar>delta\<bar>]]) @
                  [Sleep s]\<rparr>)"
proof -
  from assms have "0 \<le> max_delta" by simp
  from jitter_delta[OF this, of e w] obtain delta n where
    d: "delta \<noteq> 0" "\<bar>delta\<bar> \<le> max_delta \<or> \<bar>delta\<bar> = 30"
    and run: "bnd (randint e (- max_delta) max_delta)
             (\<lambda>d0. if d0 = 0 then bnd (randbelow e 2) (\<lambda>k. ret (if k = 0 then - 30 else 30))
                   else ret d0) w = (Inr delta, w\<lparr>rcount := rcount w + n\<rparr>)"
    by blast
  define w1 where "w1 = w\<lparr>rcount := rcount w + n\<rparr>"
  define w2 where "w2 = snd ((if 0 < delta then method_call e pg ''scroll.down'' [JInt delta]
                   else method_call e pg ''scroll.up'' [JInt \<bar>delta\<bar>]) w1)"
  have w2: "w2 = w1\<lparr>trace := trace w1 @
                  (case pg of
                     None \<Rightarrow> []
                   | Some p \<Rightarrow>
                       [if 0 < delta then Call ''page.scroll.down'' [p, JInt delta]
                        else Call ''page.scroll.up'' [p, JInt \<bar>delta\<bar>]])\<rparr>"
    unfolding w2_def by (simp add: method_call_def call_def split: option.splits)
  obtain s where s: "0 \<le> s"
      "random_delay e (JInt 100) (JInt 300) w2 =
         (Inr (), w2\<lparr>rcount := Suc (rcount w2), trace := trace w2 @ [Sleep s]\<rparr>)"
    using random_delay_100_300[of e w2] by blast
  have "random_scroll_jitter e pg max_delta w =
          (Inr (), w2\<lparr>rcount := Suc (rcount w2), trace := trace w2 @ [Sleep s]\<rparr>)"
  proof -
    have "random_scroll_jitter e pg max_delta =
            bnd (bnd (randint e (- max_delta) max_delta)
                   (\<lambda>d0. if d0 = 0 then bnd (randbelow e 2) (\<lambda>k. ret (if k = 0 then - 30 else 30))
                         else ret d0))
              (\<lambda>delta. bnd (swallow (if 0 < delta then method_call e pg ''scroll.down'' [JInt delta]
                                     else method_call e pg ''scroll.up'' [JInt \<bar>delta\<bar>]))
                         (\<lambda>_. random_delay e (JInt 100) (JInt 300)))"
      by (simp only: random_scroll_jitter_def bnd_assoc)
    then have "random_scroll_jitter e pg max_delta w =
            bnd (swallow (if 0 < delta then method_call e pg ''scroll.down'' [JInt delta]
                   else method_call e pg ''scroll.up'' [JInt \<bar>delta\<bar>]))
              (\<lambda>_. random_delay e (JInt 100) (JInt 300)) w1"
      unfolding w1_def
      by (simp only: bnd_Inr[where w = w and v = delta
            and ?w1.0 = "w\<lparr>rcount := rcount w + n\<rparr>"
            and m = "bnd (randint e (- max_delta) max_delta)
                   (\<lambda>d0. if d0 = 0 then bnd (randbelow e 2) (\<lambda>k. ret (if k = 0 then - 30 else 30))
                         else ret d0)", OF run])
    also have "\<dots> = random_delay e (JInt 100) (JInt 300) w2"
      by (simp add: bnd_def swallow_def w2_def)
    finally show ?thesis using s(2) by simp
  qed
  then have res: "random_scroll_jitter e pg max_delta w =
             (Inr (),
              w\<lparr>rcount := rcount w + (n + 1),
                trace := trace w @
                  (case pg of
                     None \<Rightarrow> []
                   | Some p \<Rightarrow>
                       [if 0 < delta then Call ''page.scroll.down'' [p, JInt delta]
                        else Call ''page.scroll.up'' [p, JInt \<bar>delta\<bar>]]) @
                  [Sleep s]\<rparr>)"
    by (simp add: w2 w1_def)
  show ?thesis
    by (intro exI[of _ delta] exI[of _ s] exI[of _ "n + 1"] conjI d s(1) res)
qed

theorem scroll_jitter_never_zero_witness:
  "(1::int) \<le> 30 \<and>
   (\<exists>delta s n. delta \<noteq> 0 \<and> (\<bar>delta\<bar> \<le> 30 \<or> \<bar>delta\<bar> = 30) \<and> 0 \<le> s \<and>
           random_scroll_jitter demo_env (Some (JStr ''page'')) 30 demo_ready =
             (Inr (),
              demo_ready\<lparr>rcount := rcount demo_ready + n,
                trace := trace demo_ready @
                  (case Some (JStr ''page'') of
                     None \<Rightarrow> []
                   | Some p \<Rightarrow>
                       [if 0 < delta then Call ''page.scroll.down'' [p, JInt delta]
                        else Call ''page.scroll.up'' [p, JInt \<bar>delta\<bar>]]) @
                  [Sleep s]\<rparr>))"
proof -
  have h: "(1::int) \<le> 30" by simp
  show ?thesis by (intro conjI h scroll_jitter_never_zero[OF h])
qed

subsection \<open>The mouse path\<close>

lemma yields_ret: "P x \<Longrightarrow> yields (ret x) P"
  by (simp add: yields_def ret_def)

lemma yields_lift: "P x \<Longrightarrow> yields (lift (Inr x)) P"
  by (simp add: yields_def lift_def)

lemma yields_bnd:
  assumes "yields m Q" and "\<And>v. Q v \<Longrightarrow> yields (f v) P"
  shows "yields (bnd m f) P"
  unfolding yields_def
proof
  fix w
  from assms(1) obtain v w1 where m: "m w = (Inr v, w1)" and q: "Q v"
    unfolding yields_def by blast
  from assms(2)[OF q] obtain u w2 where "f v w1 = (Inr u, w2)" and "P u"
    unfolding yields_def by blast
  with m show "\<exists>v w1. bnd m f w = (Inr v, w1) \<and> P v"
    by (simp add: bnd_def)
qed

lemma yields_uniform_between:
  "a \<le> b \<Longrightarrow> yields (uniform e a b) (\<lambda>v. a \<le> v \<and> v \<le> b)"
  unfolding yields_def using uniform_between[of a b e] by blast

lemma coordinate_bound_facts:
  "30 \<le> coordinate_bound" "0 \<le> coordinate_bound"
  "8 * (coordinate_bound * coordinate_bound) < float_limit"
  "32 * coordinate_bound < float_limit"
  by (simp_all add: coordinate_bound_def float_limit_def)

lemma fl_Finite: "\<bar>r\<bar> < float_limit \<Longrightarrow> fl r = Finite r"
  by (simp add: fl_def)

lemma fadd_Finite: "\<bar>a + b\<bar> < float_limit \<Longrightarrow> fadd (Finite a) (Finite b) = Finite (a + b)"
  by (simp add: fl_Finite)

lemma fmul_Finite: "\<bar>a * b\<bar> < float_limit \<Longrightarrow> fmul (Finite a) (Finite b) = Finite (a * b)"
  by (simp add: fl_Finite)

lemma hd_map_upto: "0 \<le> n \<Longrightarrow> hd (map f [0..n]) = f 0"
  by (subst upto_rec1) simp_all

lemma last_map_upto: "0 \<le> n \<Longrightarrow> last (map f [0..n]) = f n"
  by (subst upto_rec2) simp_all

lemma round_points_Finite:
  "round_points (map (\<lambda>i. (Finite (f i), Finite (g i))) xs) =
     Inr (map (\<lambda>i. (py_round (f i), py_round (g i))) xs)"
  by (induction xs) simp_all

lemma weighted_bound:
  fixes w k p M :: real
  assumes "0 \<le> w" and "w \<le> k" and "\<bar>p\<bar> \<le> M"
  shows "\<bar>w * p\<bar> \<le> k * M"
proof -
  have "\<bar>w * p\<bar> = w * \<bar>p\<bar>" using assms(1) by (simp add: abs_mult)
  also have "\<dots> \<le> k * M" using assms by (intro mult_mono) auto
  finally show ?thesis .
qed

lemma bezier_weights:
  fixes t :: real
  assumes "0 \<le> t" and "t \<le> 1"
  shows "0 \<le> (1 - t) ^ 3" "(1 - t) ^ 3 \<le> 1"
    "0 \<le> 3 * (1 - t) ^ 2 * t" "3 * (1 - t) ^ 2 * t \<le> 3"
    "0 \<le> 3 * (1 - t) * t ^ 2" "3 * (1 - t) * t ^ 2 \<le> 3"
    "0 \<le> t ^ 3" "t ^ 3 \<le> 1"
proof -
  have u: "0 \<le> 1 - t" "1 - t \<le> 1" using assms by simp_all
  show "0 \<le> (1 - t) ^ 3" using u by simp
  show "(1 - t) ^ 3 \<le> 1" using u by (intro power_le_one)
  show "0 \<le> 3 * (1 - t) ^ 2 * t" using assms by simp
  have "(1 - t) ^ 2 \<le> 1" using u by (intro power_le_one)
  then have "(1 - t) ^ 2 * t \<le> 1 * 1" using assms by (intro mult_mono) simp_all
  then show "3 * (1 - t) ^ 2 * t \<le> 3" by simp
  show "0 \<le> 3 * (1 - t) * t ^ 2" using assms u by simp
  have "t ^ 2 \<le> 1" using assms by (intro power_le_one)
  then have z: "(1 - t) * t ^ 2 \<le> 1 * 1" using u by (intro mult_mono) simp_all
  have "3 * (1 - t) * t ^ 2 = 3 * ((1 - t) * t ^ 2)" by (simp only: mult.assoc)
  also have "\<dots> \<le> 3 * (1 * 1)" using z by (intro mult_left_mono) simp_all
  finally show "3 * (1 - t) * t ^ 2 \<le> 3" by simp
  show "0 \<le> t ^ 3" using assms by simp
  show "t ^ 3 \<le> 1" using assms by (intro power_le_one)
qed

text \<open>With finite control values of moderate size the curve point is the exact polynomial.\<close>

lemma bezier_point_Finite:
  assumes t: "0 \<le> t" "t \<le> 1"
    and p: "\<bar>p0\<bar> \<le> M" "\<bar>p1\<bar> \<le> M" "\<bar>p2\<bar> \<le> M" "\<bar>p3\<bar> \<le> M"
    and M: "8 * M < float_limit"
  shows "bezier_point t (Finite p0) (Finite p1) (Finite p2) (Finite p3) =
           Finite ((1 - t) ^ 3 * p0 + 3 * (1 - t) ^ 2 * t * p1 + 3 * (1 - t) * t ^ 2 * p2 +
                   t ^ 3 * p3)"
proof -
  note w = bezier_weights[OF t]
  have a0: "\<bar>(1 - t) ^ 3 * p0\<bar> \<le> 1 * M" by (rule weighted_bound[OF w(1,2) p(1)])
  have a1: "\<bar>3 * (1 - t) ^ 2 * t * p1\<bar> \<le> 3 * M" by (rule weighted_bound[OF w(3,4) p(2)])
  have a2: "\<bar>3 * (1 - t) * t ^ 2 * p2\<bar> \<le> 3 * M" by (rule weighted_bound[OF w(5,6) p(3)])
  have a3: "\<bar>t ^ 3 * p3\<bar> \<le> 1 * M" by (rule weighted_bound[OF w(7,8) p(4)])
  have m0: "fmul (Finite ((1 - t) ^ 3)) (Finite p0) = Finite ((1 - t) ^ 3 * p0)"
    using a0 M by (intro fmul_Finite) simp
  have m1: "fmul (Finite (3 * (1 - t) ^ 2 * t)) (Finite p1) = Finite (3 * (1 - t) ^ 2 * t * p1)"
    using a1 M by (intro fmul_Finite) simp
  have m2: "fmul (Finite (3 * (1 - t) * t ^ 2)) (Finite p2) = Finite (3 * (1 - t) * t ^ 2 * p2)"
    using a2 M by (intro fmul_Finite) simp
  have m3: "fmul (Finite (t ^ 3)) (Finite p3) = Finite (t ^ 3 * p3)"
    using a3 M by (intro fmul_Finite) simp
  have s1: "fadd (Finite ((1 - t) ^ 3 * p0)) (Finite (3 * (1 - t) ^ 2 * t * p1)) =
              Finite ((1 - t) ^ 3 * p0 + 3 * (1 - t) ^ 2 * t * p1)"
    using a0 a1 M by (intro fadd_Finite) simp
  have s2: "fadd (Finite ((1 - t) ^ 3 * p0 + 3 * (1 - t) ^ 2 * t * p1))
                 (Finite (3 * (1 - t) * t ^ 2 * p2)) =
              Finite ((1 - t) ^ 3 * p0 + 3 * (1 - t) ^ 2 * t * p1 + 3 * (1 - t) * t ^ 2 * p2)"
    using a0 a1 a2 M by (intro fadd_Finite) simp
  have s3: "fadd (Finite ((1 - t) ^ 3 * p0 + 3 * (1 - t) ^ 2 * t * p1 + 3 * (1 - t) * t ^ 2 * p2))
                 (Finite (t ^ 3 * p3)) =
              Finite ((1 - t) ^ 3 * p0 + 3 * (1 - t) ^ 2 * t * p1 + 3 * (1 - t) * t ^ 2 * p2 +
                      t ^ 3 * p3)"
    using a0 a1 a2 a3 M by (intro fadd_Finite) simp
  show ?thesis
    unfolding bezier_point_def m0 m1 m2 m3 s1 s2 s3 ..
qed

text \<open>A control value: the start, a fraction of the displacement, and the noise.\<close>

lemma control_point:
  assumes "\<bar>x0\<bar> \<le> coordinate_bound" and "\<bar>dx\<bar> \<le> 2 * coordinate_bound"
    and "0 \<le> u" and "u \<le> 1" and "\<bar>nz\<bar> \<le> coordinate_bound"
  shows "fadd (fadd (Finite x0) (fmul (Finite dx) (Finite u))) (Finite nz) =
           Finite (x0 + dx * u + nz) \<and> \<bar>x0 + dx * u + nz\<bar> \<le> 4 * coordinate_bound"
proof -
  note B = coordinate_bound_facts
  have du: "\<bar>dx * u\<bar> \<le> 2 * coordinate_bound"
  proof -
    have "\<bar>dx * u\<bar> = \<bar>dx\<bar> * u" using assms(3) by (simp add: abs_mult)
    also have "\<dots> \<le> (2 * coordinate_bound) * 1" using assms by (intro mult_mono) simp_all
    finally show ?thesis by simp
  qed
  have m: "fmul (Finite dx) (Finite u) = Finite (dx * u)"
    using du B by (intro fmul_Finite) simp
  have s1: "fadd (Finite x0) (Finite (dx * u)) = Finite (x0 + dx * u)"
    using du assms(1) B by (intro fadd_Finite) simp
  have s2: "fadd (Finite (x0 + dx * u)) (Finite nz) = Finite (x0 + dx * u + nz)"
    using du assms(1,5) B by (intro fadd_Finite) simp
  have "\<bar>x0 + dx * u + nz\<bar> \<le> 4 * coordinate_bound"
    using du assms(1,5) by simp
  then show ?thesis unfolding m s1 s2 by simp
qed

lemma yields_uniform_float:
  assumes "0 \<le> sp" and "sp \<le> coordinate_bound"
  shows "yields (uniform_float e (fneg (Finite sp)) (Finite sp))
           (\<lambda>v. \<exists>r. v = Finite r \<and> \<bar>r\<bar> \<le> coordinate_bound)"
  unfolding yields_def
proof
  fix w
  note B = coordinate_bound_facts
  obtain r where r: "0 \<le> r" "r < 1" "py_random e w = (Inr r, w\<lparr>rcount := Suc (rcount w)\<rparr>)"
    using py_random_unit[of e w] by (elim exE conjE) simp
  have d: "fsub (Finite sp) (fneg (Finite sp)) = Finite (sp + sp)"
    unfolding fsub_def using assms B by (simp add: fl_Finite)
  have p: "\<bar>(sp + sp) * r\<bar> \<le> 2 * sp"
  proof -
    have "\<bar>(sp + sp) * r\<bar> = (sp + sp) * r" using assms r by simp
    also have "\<dots> \<le> (sp + sp) * 1" using assms r by (intro mult_left_mono) simp_all
    finally show ?thesis by simp
  qed
  have m: "fmul (Finite (sp + sp)) (Finite r) = Finite ((sp + sp) * r)"
    using p assms B by (intro fmul_Finite) simp
  have lo: "0 \<le> (sp + sp) * r" using assms r by simp
  have v: "\<bar>- sp + (sp + sp) * r\<bar> \<le> sp"
  proof -
    define z where "z = (sp + sp) * r"
    have "0 \<le> z" "\<bar>z\<bar> \<le> 2 * sp" using lo p by (simp_all add: z_def)
    then have "\<bar>- sp + z\<bar> \<le> sp" by linarith
    then show ?thesis by (simp add: z_def)
  qed
  have a: "fadd (fneg (Finite sp)) (Finite ((sp + sp) * r)) = Finite (- sp + (sp + sp) * r)"
    using v assms B by (simp add: fl_Finite)
  have "uniform_float e (fneg (Finite sp)) (Finite sp) w =
          (Inr (fadd (fneg (Finite sp)) (fmul (fsub (Finite sp) (fneg (Finite sp))) (Finite r))),
           w\<lparr>rcount := Suc (rcount w)\<rparr>)"
    unfolding uniform_float_def using r(3) by (simp add: bnd_def ret_def)
  then have "uniform_float e (fneg (Finite sp)) (Finite sp) w =
          (Inr (Finite (- sp + (sp + sp) * r)), w\<lparr>rcount := Suc (rcount w)\<rparr>)"
    by (simp only: d m a)
  moreover have "\<bar>- sp + (sp + sp) * r\<bar> \<le> coordinate_bound" using v assms(2) by simp
  ultimately show "\<exists>v w1. uniform_float e (fneg (Finite sp)) (Finite sp) w = (Inr v, w1) \<and>
                     (\<exists>r. v = Finite r \<and> \<bar>r\<bar> \<le> coordinate_bound)"
    by blast
qed

lemma displacement:
  assumes "\<bar>a\<bar> \<le> coordinate_bound" and "\<bar>b\<bar> \<le> coordinate_bound"
  shows "fsub (Finite b) (Finite a) = Finite (b - a)" "\<bar>b - a\<bar> \<le> 2 * coordinate_bound"
proof -
  note B = coordinate_bound_facts
  show 2: "\<bar>b - a\<bar> \<le> 2 * coordinate_bound" using assms by simp
  have "\<bar>b + - a\<bar> < float_limit" using 2 B by simp
  then show "fsub (Finite b) (Finite a) = Finite (b - a)"
    unfolding fsub_def by (simp add: fl_Finite)
qed

lemma square_bound:
  fixes a :: real
  assumes "\<bar>a\<bar> \<le> 2 * coordinate_bound"
  shows "\<bar>a * a\<bar> \<le> 4 * (coordinate_bound * coordinate_bound)"
proof -
  have "\<bar>a * a\<bar> = \<bar>a\<bar> * \<bar>a\<bar>" by (simp add: abs_mult)
  also have "\<dots> \<le> (2 * coordinate_bound) * (2 * coordinate_bound)"
    using assms by (intro mult_mono) (simp_all add: coordinate_bound_facts)
  finally show ?thesis by simp
qed

text \<open>The distance and the spread of the noise stay finite.\<close>

lemma spread_bounded:
  assumes "\<bar>a\<bar> \<le> 2 * coordinate_bound" and "\<bar>b\<bar> \<le> 2 * coordinate_bound"
  shows "\<exists>d sp. fsqrt (fadd (fmul (Finite a) (Finite a)) (fmul (Finite b) (Finite b))) =
                   Inr (Finite d) \<and>
                 py_max (fmul (Finite d) (Finite 0.3)) (Finite 30) = Finite sp \<and>
                 0 \<le> sp \<and> sp \<le> coordinate_bound"
proof -
  note B = coordinate_bound_facts
  note aa = square_bound[OF assms(1)] and bb = square_bound[OF assms(2)]
  have ma: "fmul (Finite a) (Finite a) = Finite (a * a)"
    using aa B by (intro fmul_Finite) simp
  have mb: "fmul (Finite b) (Finite b) = Finite (b * b)"
    using bb B by (intro fmul_Finite) simp
  have sum: "\<bar>a * a + b * b\<bar> \<le> 8 * (coordinate_bound * coordinate_bound)"
    using aa bb by simp
  have s: "fadd (Finite (a * a)) (Finite (b * b)) = Finite (a * a + b * b)"
    using sum B by (intro fadd_Finite) simp
  define d where "d = sqrt (a * a + b * b)"
  have nn: "0 \<le> a * a + b * b" by (intro add_nonneg_nonneg) simp_all
  then have nl: "\<not> a * a + b * b < 0" by (simp only: not_less)
  have q: "fsqrt (fadd (fmul (Finite a) (Finite a)) (fmul (Finite b) (Finite b))) = Inr (Finite d)"
    unfolding ma mb s by (simp only: fsqrt.simps nl if_False d_def)
  have d0: "0 \<le> d" unfolding d_def using nn by simp
  have "a * a + b * b \<le> (3 * coordinate_bound)\<^sup>2"
  proof -
    have "0 \<le> coordinate_bound * coordinate_bound" using B by simp
    then have "8 * (coordinate_bound * coordinate_bound) \<le> 9 * (coordinate_bound * coordinate_bound)"
      by simp
    also have "\<dots> = (3 * coordinate_bound)\<^sup>2" by (simp add: power2_eq_square)
    finally show ?thesis using sum by simp
  qed
  then have d3: "d \<le> 3 * coordinate_bound"
    unfolding d_def using B by (intro real_le_lsqrt) simp_all
  have t: "0 \<le> d * 0.3" "d * 0.3 \<le> coordinate_bound" using d0 d3 by simp_all
  then have "\<bar>d * 0.3\<bar> < float_limit" using B by simp
  then have m: "fmul (Finite d) (Finite 0.3) = Finite (d * 0.3)"
    by (rule fmul_Finite)
  define sp where "sp = (if d * 0.3 < 30 then 30 else d * 0.3)"
  have "py_max (fmul (Finite d) (Finite 0.3)) (Finite 30) = Finite sp"
    unfolding m by (simp add: py_max_def sp_def)
  moreover have "0 \<le> sp" "sp \<le> coordinate_bound" using t B by (simp_all add: sp_def)
  ultimately show ?thesis using q by blast
qed

lemma bezier_tail:
  assumes n: "1 \<le> n"
    and px: "\<bar>x0\<bar> \<le> M" "\<bar>x1\<bar> \<le> M" "\<bar>x2\<bar> \<le> M" "\<bar>x3\<bar> \<le> M"
    and py: "\<bar>y0\<bar> \<le> M" "\<bar>y1\<bar> \<le> M" "\<bar>y2\<bar> \<le> M" "\<bar>y3\<bar> \<le> M"
    and M: "8 * M < float_limit"
  shows "\<exists>pts. round_points
                 (map (\<lambda>i. let t = of_int i / of_int n
                            in (bezier_point t (Finite x0) (Finite x1) (Finite x2) (Finite x3),
                                bezier_point t (Finite y0) (Finite y1) (Finite y2) (Finite y3)))
                      [0..n]) = Inr pts \<and>
               length pts = nat n + 1 \<and> hd pts = (py_round x0, py_round y0) \<and>
               last pts = (py_round x3, py_round y3)"
proof -
  define poly :: "real \<Rightarrow> real \<Rightarrow> real \<Rightarrow> real \<Rightarrow> real \<Rightarrow> real" where
    "poly = (\<lambda>t p0 p1 p2 p3.
       (1 - t) ^ 3 * p0 + 3 * (1 - t) ^ 2 * t * p1 + 3 * (1 - t) * t ^ 2 * p2 + t ^ 3 * p3)"
  define tt :: "int \<Rightarrow> real" where "tt = (\<lambda>i. of_int i / of_int n)"
  from n have n0: "0 \<le> n" "n \<noteq> 0" by simp_all
  have range: "0 \<le> tt i \<and> tt i \<le> 1" if "i \<in> set [0..n]" for i
    using that n by (simp add: tt_def)
  have pt: "(let t = of_int i / of_int n
              in (bezier_point t (Finite x0) (Finite x1) (Finite x2) (Finite x3),
                  bezier_point t (Finite y0) (Finite y1) (Finite y2) (Finite y3))) =
            (Finite (poly (tt i) x0 x1 x2 x3), Finite (poly (tt i) y0 y1 y2 y3))"
    if "i \<in> set [0..n]" for i
  proof -
    from range[OF that] have t: "0 \<le> tt i" "tt i \<le> 1" by simp_all
    have tti: "real_of_int i / real_of_int n = tt i" by (simp add: tt_def)
    show ?thesis
      unfolding Let_def tti
      by (simp only: bezier_point_Finite[OF t px M] bezier_point_Finite[OF t py M] poly_def)
  qed
  have "map (\<lambda>i. let t = of_int i / of_int n
                            in (bezier_point t (Finite x0) (Finite x1) (Finite x2) (Finite x3),
                                bezier_point t (Finite y0) (Finite y1) (Finite y2) (Finite y3)))
            [0..n] =
        map (\<lambda>i. (Finite (poly (tt i) x0 x1 x2 x3), Finite (poly (tt i) y0 y1 y2 y3))) [0..n]"
    by (rule map_cong[OF refl pt])
  then have r: "round_points
                 (map (\<lambda>i. let t = of_int i / of_int n
                            in (bezier_point t (Finite x0) (Finite x1) (Finite x2) (Finite x3),
                                bezier_point t (Finite y0) (Finite y1) (Finite y2) (Finite y3)))
                      [0..n]) =
        Inr (map (\<lambda>i. (py_round (poly (tt i) x0 x1 x2 x3), py_round (poly (tt i) y0 y1 y2 y3)))
               [0..n])"
    by (simp only: round_points_Finite)
  have t0: "tt 0 = 0" and t1: "tt n = 1" using n0 by (simp_all add: tt_def)
  have e0: "poly 0 p0 p1 p2 p3 = p0" and e1: "poly 1 p0 p1 p2 p3 = p3" for p0 p1 p2 p3
    by (simp_all add: poly_def)
  have len: "nat (n + 1) = Suc (nat n)" using n0(1) by arith
  show ?thesis
    unfolding r
    by (intro exI[of _ "map (\<lambda>i. (py_round (poly (tt i) x0 x1 x2 x3),
                                     py_round (poly (tt i) y0 y1 y2 y3))) [0..n]"])
       (simp add: hd_map_upto last_map_upto n0 t0 t1 e0 e1 len)
qed

text \<open>The rest of \<^verbatim>\<open>bezier_curve_points\<close> once the eight draws are made.\<close>

lemma bezier_rest_yields:
  assumes n: "1 \<le> n"
    and b: "\<bar>x0\<bar> \<le> coordinate_bound" "\<bar>y0\<bar> \<le> coordinate_bound"
           "\<bar>x3\<bar> \<le> coordinate_bound" "\<bar>y3\<bar> \<le> coordinate_bound"
    and f: "0.2 \<le> fx1" "fx1 \<le> 0.4" "0.2 \<le> fy1" "fy1 \<le> 0.4"
           "0.6 \<le> fx2" "fx2 \<le> 0.8" "0.6 \<le> fy2" "fy2 \<le> 0.8"
    and r: "\<bar>r1\<bar> \<le> coordinate_bound" "\<bar>r2\<bar> \<le> coordinate_bound"
           "\<bar>r3\<bar> \<le> coordinate_bound" "\<bar>r4\<bar> \<le> coordinate_bound"
  shows "yields
           (if n = 0 then raise (Exn ZeroDivisionError ''division by zero'')
            else lift (round_points
                   (map (\<lambda>i. let t = of_int i / of_int n
                              in (bezier_point t (Finite x0)
                                    (fadd (fadd (Finite x0) (fmul (Finite (x3 - x0)) (Finite fx1))) (Finite r1))
                                    (fadd (fadd (Finite x0) (fmul (Finite (x3 - x0)) (Finite fx2))) (Finite r3))
                                    (Finite x3),
                                  bezier_point t (Finite y0)
                                    (fadd (fadd (Finite y0) (fmul (Finite (y3 - y0)) (Finite fy1))) (Finite r2))
                                    (fadd (fadd (Finite y0) (fmul (Finite (y3 - y0)) (Finite fy2))) (Finite r4))
                                    (Finite y3)))
                        [0..n])))
           (\<lambda>pts. length pts = nat n + 1 \<and> hd pts = (py_round x0, py_round y0) \<and>
                  last pts = (py_round x3, py_round y3))"
proof -
  note B = coordinate_bound_facts
  note dx = displacement(2)[OF b(1) b(3)] and dy = displacement(2)[OF b(2) b(4)]
  have u: "0 \<le> fx1" "fx1 \<le> 1" "0 \<le> fy1" "fy1 \<le> 1" "0 \<le> fx2" "fx2 \<le> 1" "0 \<le> fy2" "fy2 \<le> 1"
    using f by simp_all
  note c1 = control_point[OF b(1) dx u(1,2) r(1)]
  note c2 = control_point[OF b(2) dy u(3,4) r(2)]
  note c3 = control_point[OF b(1) dx u(5,6) r(3)]
  note c4 = control_point[OF b(2) dy u(7,8) r(4)]
  have b4: "\<bar>x0\<bar> \<le> 4 * coordinate_bound" "\<bar>y0\<bar> \<le> 4 * coordinate_bound"
           "\<bar>x3\<bar> \<le> 4 * coordinate_bound" "\<bar>y3\<bar> \<le> 4 * coordinate_bound"
    using b B by simp_all
  have M: "8 * (4 * coordinate_bound) < float_limit" using B by simp
  from n have n0: "n \<noteq> 0" by simp
  obtain pts where pts:
      "round_points
         (map (\<lambda>i. let t = of_int i / of_int n
                    in (bezier_point t (Finite x0) (Finite (x0 + (x3 - x0) * fx1 + r1))
                          (Finite (x0 + (x3 - x0) * fx2 + r3)) (Finite x3),
                        bezier_point t (Finite y0) (Finite (y0 + (y3 - y0) * fy1 + r2))
                          (Finite (y0 + (y3 - y0) * fy2 + r4)) (Finite y3)))
              [0..n]) = Inr pts"
      "length pts = nat n + 1 \<and> hd pts = (py_round x0, py_round y0) \<and>
       last pts = (py_round x3, py_round y3)"
    using bezier_tail[OF n b4(1) c1[THEN conjunct2] c3[THEN conjunct2] b4(3)
        b4(2) c2[THEN conjunct2] c4[THEN conjunct2] b4(4) M]
    by (elim exE conjE) simp
  show ?thesis
    unfolding c1[THEN conjunct1] c2[THEN conjunct1] c3[THEN conjunct1] c4[THEN conjunct1]
    by (simp only: n0 if_False pts(1)) (rule yields_lift, rule pts(2))
qed

lemma bezier_curve_points_bounded:
  assumes n: "1 \<le> n"
    and b: "\<bar>x0\<bar> \<le> coordinate_bound" "\<bar>y0\<bar> \<le> coordinate_bound"
           "\<bar>x3\<bar> \<le> coordinate_bound" "\<bar>y3\<bar> \<le> coordinate_bound"
  shows "yields (bezier_curve_points e (Finite x0, Finite y0) (Finite x3, Finite y3) n)
           (\<lambda>pts. length pts = nat n + 1 \<and> hd pts = (py_round x0, py_round y0) \<and>
                  last pts = (py_round x3, py_round y3))"
proof -
  note dx = displacement[OF b(1) b(3)] and dy = displacement[OF b(2) b(4)]
  obtain d sp where
      d: "fsqrt (fadd (fmul (Finite (x3 - x0)) (Finite (x3 - x0)))
                      (fmul (Finite (y3 - y0)) (Finite (y3 - y0)))) = Inr (Finite d)"
    and sp: "py_max (fmul (Finite d) (Finite 0.3)) (Finite 30) = Finite sp"
    and sp0: "0 \<le> sp" and sp1: "sp \<le> coordinate_bound"
    using spread_bounded[OF dx(2) dy(2)] by (elim exE conjE) simp
  note uf = yields_uniform_float[OF sp0 sp1]
  have lo: "(0.2::real) \<le> 0.4" and hi: "(0.6::real) \<le> 0.8" by simp_all
  show ?thesis
    unfolding bezier_curve_points_def prod.case Let_def dx(1) dy(1) d bnd_lift_Inr sp
    apply (rule yields_bnd[OF yields_uniform_between[OF lo]])
    apply (rule yields_bnd[OF uf])
    apply (rule yields_bnd[OF yields_uniform_between[OF lo]])
    apply (rule yields_bnd[OF uf])
    apply (rule yields_bnd[OF yields_uniform_between[OF hi]])
    apply (rule yields_bnd[OF uf])
    apply (rule yields_bnd[OF yields_uniform_between[OF hi]])
    apply (rule yields_bnd[OF uf])
    apply (elim exE conjE)
    apply hypsubst
    apply (rule bezier_rest_yields[unfolded Let_def, OF n b]; assumption)
    done
qed

text \<open>
  Claim C4, as amended: for every \<^verbatim>\<open>num_points\<close> of at least 1 and every start and end whose
  coordinates are at most \<open>10 ^ 150\<close> in absolute value, \<^verbatim>\<open>bezier_curve_points\<close> returns,
  whatever the eight draws that place the control points, a list of \<^verbatim>\<open>num_points + 1\<close>
  points whose first element is the start and whose last element is the end, each
  coordinate rounded as \<^verbatim>\<open>round\<close> does.
\<close>

theorem bezier_curve_points_endpoints:
  assumes "1 \<le> n"
    and "\<bar>x0\<bar> \<le> coordinate_bound" and "\<bar>y0\<bar> \<le> coordinate_bound"
    and "\<bar>x3\<bar> \<le> coordinate_bound" and "\<bar>y3\<bar> \<le> coordinate_bound"
  shows "\<exists>pts. fst (bezier_curve_points e (Finite x0, Finite y0) (Finite x3, Finite y3) n w) =
                 Inr pts \<and>
               length pts = nat n + 1 \<and>
               hd pts = (py_round x0, py_round y0) \<and>
               last pts = (py_round x3, py_round y3)"
proof -
  from bezier_curve_points_bounded[OF assms, of e] obtain pts w1 where
    "bezier_curve_points e (Finite x0, Finite y0) (Finite x3, Finite y3) n w = (Inr pts, w1)"
    "length pts = nat n + 1 \<and> hd pts = (py_round x0, py_round y0) \<and>
     last pts = (py_round x3, py_round y3)"
    unfolding yields_def by blast
  then show ?thesis by (intro exI[of _ pts]) simp
qed

text \<open>
  The claim as stated, for every start and end, fails where the arithmetic overflows: from
  (0, 0) to (1e200, 0) the squared distance is infinite, so is the spread, every noise
  drawn between minus and plus infinity is NaN, the control points are NaN, and rounding
  the first point raises.
\<close>

theorem bezier_curve_points_overflow:
  "bezier_curve_points demo_env (Finite 0, Finite 0) (Finite (10 ^ 200), Finite 0) 1 initial_world =
     (Inl (Exn ValueError ''cannot convert float NaN to integer''), initial_world\<lparr>rcount := 8\<rparr>)"
proof -
  have big: "\<not> \<bar>(10::real) ^ 200 * 10 ^ 200\<bar> < float_limit"
    by (simp add: float_limit_def)
  have small: "\<bar>(10::real) ^ 200\<bar> < float_limit"
    by (simp add: float_limit_def)
  have dx: "fsub (Finite (10 ^ 200)) (Finite 0) = Finite (10 ^ 200)"
    using small by (simp add: fsub_def fl_def)
  have dy: "fsub (Finite 0) (Finite 0) = Finite 0"
    by (simp add: fsub_def fl_def float_limit_def)
  have sq: "fmul (Finite (10 ^ 200)) (Finite (10 ^ 200)) = PosInf"
    using big by (simp add: fl_def)
  have z: "fmul (Finite 0) (Finite 0) = Finite 0"
    by (simp add: fl_def float_limit_def)
  have dist: "fsqrt (fadd PosInf (Finite 0)) = Inr PosInf"
    by simp
  have spread: "py_max (fmul PosInf (Finite 0.3)) (Finite 30) = PosInf"
    by (simp add: py_max_def)
  have noise: "uniform_float demo_env (fneg PosInf) PosInf = (\<lambda>w. (Inr NaN, w\<lparr>rcount := Suc (rcount w)\<rparr>))"
    by (rule ext) (simp add: uniform_float_def py_random_def bnd_def ret_def fsub_def demo_env_simps)
  have control: "fadd a NaN = NaN" for a
    by (cases a) simp_all
  have point: "bezier_point 0 (Finite 0) NaN p2 p3 = NaN" for p2 p3
    by (simp add: bezier_point_def fl_def float_limit_def)
  show ?thesis
    unfolding bezier_curve_points_def prod.case Let_def dx dy sq z dist bnd_lift_Inr spread noise
    by (simp add: bnd_def uniform_def py_random_def ret_def lift_def control point upto_rec1
        initial_world_def)
qed

theorem bezier_curve_points_endpoints_witness:
  "(1::int) \<le> 2 \<and> \<bar>0::real\<bar> \<le> coordinate_bound \<and> \<bar>3::real\<bar> \<le> coordinate_bound \<and>
   \<bar>4::real\<bar> \<le> coordinate_bound \<and>
   (\<exists>pts. fst (bezier_curve_points demo_env (Finite 0, Finite 0) (Finite 3, Finite 4) 2 initial_world) =
            Inr pts \<and>
          length pts = nat 2 + 1 \<and>
          hd pts = (py_round 0, py_round 0) \<and>
          last pts = (py_round 3, py_round 4))"
proof -
  have h: "(1::int) \<le> 2" by simp
  have b0: "\<bar>0::real\<bar> \<le> coordinate_bound" and b3: "\<bar>3::real\<bar> \<le> coordinate_bound"
    and b4: "\<bar>4::real\<bar> \<le> coordinate_bound"
    by (simp_all add: coordinate_bound_def)
  show ?thesis
    by (intro conjI h b0 b3 b4 bezier_curve_points_endpoints[OF h b0 b0 b3 b4])
qed

subsection \<open>Typing\<close>

lemma sleep_uniform:
  assumes "0 \<le> a" and "a \<le> b"
  shows "\<exists>d. a \<le> d \<and> d \<le> b \<and>
           bnd (uniform e a b) py_sleep w =
             (Inr (), w\<lparr>rcount := Suc (rcount w), trace := trace w @ [Sleep d]\<rparr>)"
proof -
  obtain v where v: "a \<le> v" "v \<le> b" "uniform e a b w = (Inr v, w\<lparr>rcount := Suc (rcount w)\<rparr>)"
    using uniform_between[OF assms(2), of e w] by (elim exE conjE) simp
  from v(1) assms(1) have "0 \<le> v" by simp
  then show ?thesis using v
    by (intro exI[of _ v]) (simp add: bnd_def py_sleep_def)
qed

lemma type_pause_run:
  assumes "0 \<le> lo" and "lo \<le> hi"
  shows "\<exists>d. delay_ok lo hi d \<and>
           type_pause e lo hi w =
             (Inr (), w\<lparr>rcount := rcount w + 2, trace := trace w @ [Sleep d]\<rparr>)"
proof -
  obtain r where r: "py_random e w = (Inr r, w\<lparr>rcount := Suc (rcount w)\<rparr>)"
    using py_random_unit[of e w] by (elim exE conjE) simp
  define w1 where "w1 = w\<lparr>rcount := Suc (rcount w)\<rparr>"
  have a: "\<exists>d. 0.3 \<le> d \<and> d \<le> 0.8 \<and> bnd (uniform e 0.3 0.8) py_sleep w1 =
             (Inr (), w1\<lparr>rcount := Suc (rcount w1), trace := trace w1 @ [Sleep d]\<rparr>)"
    by (rule sleep_uniform) simp_all
  have b: "\<exists>d. lo / 1000 \<le> d \<and> d \<le> hi / 1000 \<and>
             bnd (uniform e (lo / 1000) (hi / 1000)) py_sleep w1 =
             (Inr (), w1\<lparr>rcount := Suc (rcount w1), trace := trace w1 @ [Sleep d]\<rparr>)"
    using assms by (intro sleep_uniform) simp_all
  have "\<exists>d. delay_ok lo hi d \<and>
          (if r < 0.05 then bnd (uniform e 0.3 0.8) py_sleep
           else bnd (uniform e (lo / 1000) (hi / 1000)) py_sleep) w1 =
             (Inr (), w1\<lparr>rcount := Suc (rcount w1), trace := trace w1 @ [Sleep d]\<rparr>)"
  proof (cases "r < 0.05")
    case True
    from a obtain d where "0.3 \<le> d" "d \<le> 0.8" "bnd (uniform e 0.3 0.8) py_sleep w1 =
             (Inr (), w1\<lparr>rcount := Suc (rcount w1), trace := trace w1 @ [Sleep d]\<rparr>)"
      by (elim exE conjE)
    with True show ?thesis by (intro exI[of _ d]) (simp add: delay_ok_def)
  next
    case False
    from b obtain d where "lo / 1000 \<le> d" "d \<le> hi / 1000"
       "bnd (uniform e (lo / 1000) (hi / 1000)) py_sleep w1 =
             (Inr (), w1\<lparr>rcount := Suc (rcount w1), trace := trace w1 @ [Sleep d]\<rparr>)"
      by (elim exE conjE)
    with False show ?thesis by (intro exI[of _ d]) (simp add: delay_ok_def)
  qed
  then obtain d where d: "delay_ok lo hi d"
     "(if r < 0.05 then bnd (uniform e 0.3 0.8) py_sleep
           else bnd (uniform e (lo / 1000) (hi / 1000)) py_sleep) w1 =
             (Inr (), w1\<lparr>rcount := Suc (rcount w1), trace := trace w1 @ [Sleep d]\<rparr>)"
    by (elim exE conjE)
  have "type_pause e lo hi w =
          (Inr (), w1\<lparr>rcount := Suc (rcount w1), trace := trace w1 @ [Sleep d]\<rparr>)"
    unfolding type_pause_def using r d(2) by (simp add: bnd_def w1_def)
  then show ?thesis using d(1) by (intro exI[of _ d]) (simp add: w1_def)
qed

lemma type_step_typed:
  assumes "0 \<le> lo" and "lo \<le> hi"
    and "drv e (trace w) ''element.input'' [el, ch] = Inr v"
  shows "\<exists>d. delay_ok lo hi d \<and>
           type_step e el ch lo hi w =
             (Inr True, w\<lparr>rcount := rcount w + 2,
                          trace := trace w @ [Call ''element.input'' [el, ch], Sleep d]\<rparr>)"
proof -
  define w1 where "w1 = w\<lparr>trace := trace w @ [Call ''element.input'' [el, ch]]\<rparr>"
  obtain d where d: "delay_ok lo hi d"
      "type_pause e lo hi w1 = (Inr (), w1\<lparr>rcount := rcount w1 + 2, trace := trace w1 @ [Sleep d]\<rparr>)"
    using type_pause_run[OF assms(1,2), of e w1] by (elim exE conjE)
  have "type_step e el ch lo hi w =
          (Inr True, w1\<lparr>rcount := rcount w1 + 2, trace := trace w1 @ [Sleep d]\<rparr>)"
    using assms(3) d(2) by (simp add: type_step_def Let_def call_def bnd_def ret_def w1_def)
  then show ?thesis using d(1)
    by (intro exI[of _ d]) (simp add: w1_def)
qed

lemma type_step_retyped:
  assumes "0 \<le> lo" and "lo \<le> hi"
    and "drv e (trace w) ''element.input'' [el, ch] = Inl x"
    and "drv e (trace w @ [Call ''element.input'' [el, ch]]) ''element.type'' [el, ch] = Inr v"
  shows "\<exists>d. delay_ok lo hi d \<and>
           type_step e el ch lo hi w =
             (Inr True, w\<lparr>rcount := rcount w + 2,
                          trace := trace w @ [Call ''element.input'' [el, ch],
                                              Call ''element.type'' [el, ch], Sleep d]\<rparr>)"
proof -
  define w2 where "w2 = w\<lparr>trace := trace w @ [Call ''element.input'' [el, ch],
                                                Call ''element.type'' [el, ch]]\<rparr>"
  obtain d where d: "delay_ok lo hi d"
      "type_pause e lo hi w2 = (Inr (), w2\<lparr>rcount := rcount w2 + 2, trace := trace w2 @ [Sleep d]\<rparr>)"
    using type_pause_run[OF assms(1,2), of e w2] by (elim exE conjE)
  have "type_step e el ch lo hi w =
          (Inr True, w2\<lparr>rcount := rcount w2 + 2, trace := trace w2 @ [Sleep d]\<rparr>)"
    using assms(3,4) d(2) by (simp add: type_step_def Let_def call_def bnd_def ret_def w2_def)
  then show ?thesis using d(1)
    by (intro exI[of _ d]) (simp add: w2_def)
qed

lemma type_step_break:
  assumes "drv e (trace w) ''element.input'' [el, ch] = Inl x"
    and "drv e (trace w @ [Call ''element.input'' [el, ch]]) ''element.type'' [el, ch] = Inl y"
  shows "type_step e el ch lo hi w =
           (Inr False, w\<lparr>trace := trace w @ [Call ''element.input'' [el, ch],
                                                Call ''element.type'' [el, ch]]\<rparr>)"
  using assms by (simp add: type_step_def Let_def call_def)

lemma type_loop_run:
  assumes "0 \<le> lo" and "lo \<le> hi"
  shows "\<exists>os. typing_run e el lo hi (trace w) s os \<and> length os \<le> length s \<and>
           type_loop e el (map (\<lambda>c. JStr [c]) s) lo hi w =
             (Inr (), w\<lparr>rcount := rcount w + 2 * length (filter accepted os),
                        trace := trace w @ concat (map2 (outcome_events el) s os)\<rparr>)"
proof (induction s arbitrary: w)
  case Nil
  show ?case by (intro exI[of _ "[]"]) simp
next
  case (Cons c cs)
  show ?case
  proof (cases "drv e (trace w) ''element.input'' [el, JStr [c]]")
    case (Inr v)
    obtain d where d: "delay_ok lo hi d"
      "type_step e el (JStr [c]) lo hi w =
             (Inr True, w\<lparr>rcount := rcount w + 2,
                          trace := trace w @ [Call ''element.input'' [el, JStr [c]], Sleep d]\<rparr>)"
      using type_step_typed[OF assms Inr] by (elim exE conjE)
    define w1 where "w1 = w\<lparr>rcount := rcount w + 2,
                          trace := trace w @ [Call ''element.input'' [el, JStr [c]], Sleep d]\<rparr>"
    from Cons.IH[of w1] obtain os where os: "typing_run e el lo hi (trace w1) cs os"
        "length os \<le> length cs"
        "type_loop e el (map (\<lambda>c. JStr [c]) cs) lo hi w1 =
             (Inr (), w1\<lparr>rcount := rcount w1 + 2 * length (filter accepted os),
                        trace := trace w1 @ concat (map2 (outcome_events el) cs os)\<rparr>)"
      by (elim exE conjE)
    show ?thesis
      using Inr d os by (intro exI[of _ "Typed d # os"]) (simp add: w1_def)
  next
    case (Inl x)
    show ?thesis
    proof (cases "drv e (trace w @ [Call ''element.input'' [el, JStr [c]]]) ''element.type''
                    [el, JStr [c]]")
      case (Inr v)
      obtain d where d: "delay_ok lo hi d"
        "type_step e el (JStr [c]) lo hi w =
             (Inr True, w\<lparr>rcount := rcount w + 2,
                          trace := trace w @ [Call ''element.input'' [el, JStr [c]],
                                              Call ''element.type'' [el, JStr [c]], Sleep d]\<rparr>)"
        using type_step_retyped[OF assms Inl Inr] by (elim exE conjE)
      define w1 where "w1 = w\<lparr>rcount := rcount w + 2,
                          trace := trace w @ [Call ''element.input'' [el, JStr [c]],
                                              Call ''element.type'' [el, JStr [c]], Sleep d]\<rparr>"
      from Cons.IH[of w1] obtain os where os: "typing_run e el lo hi (trace w1) cs os"
          "length os \<le> length cs"
          "type_loop e el (map (\<lambda>c. JStr [c]) cs) lo hi w1 =
             (Inr (), w1\<lparr>rcount := rcount w1 + 2 * length (filter accepted os),
                        trace := trace w1 @ concat (map2 (outcome_events el) cs os)\<rparr>)"
        by (elim exE conjE)
      show ?thesis
        using Inl Inr d os by (intro exI[of _ "Retyped d # os"]) (simp add: w1_def)
    next
      case y: (Inl y)
      show ?thesis
        using Inl y type_step_break[OF Inl y, of lo hi]
        by (intro exI[of _ "[Rejected]"]) simp
    qed
  qed
qed

text \<open>
  Claim C5, as amended. \<^verbatim>\<open>human_type\<close> takes the characters of the text in order. At each
  position it passes the character to \<^verbatim>\<open>element.input\<close>; only if that raises, it passes the
  same character once to \<^verbatim>\<open>element.type\<close>. If one of the two calls is accepted, one delay
  follows (the per-character delay, or a pause between 0.3 and 0.8 seconds) and typing goes
  on with the next character. If both raise, nothing follows: no delay, no later character,
  no third attempt, and \<^verbatim>\<open>human_type\<close> returns normally. What the driver answers is read
  at the effects performed so far, so the statement holds for every driver, also one whose
  answers change with the history, and for every text and state, with delays that are not
  negative.
\<close>

theorem human_type_calls:
  assumes "0 \<le> lo" and "lo \<le> hi"
  shows "\<exists>os. typing_run e el lo hi (trace w) s os \<and> length os \<le> length s \<and>
           human_type e el (JStr s) lo hi w =
             (Inr (), w\<lparr>rcount := rcount w + 2 * length (filter accepted os),
                        trace := trace w @ concat (map2 (outcome_events el) s os)\<rparr>)"
  using type_loop_run[OF assms, of e el w s]
  by (simp add: human_type_def bnd_def lift_def)

lemma typing_env_simps:
  "drv typing_env h name args =
     (if name = ''element.input'' \<and> args = [JStr ''field'', JStr ''a''] then Inr JNull
      else if name = ''element.type'' \<and> args = [JStr ''field'', JStr ''b''] then Inr JNull
      else Inl (Exn DriverError ''input rejected''))"
  "rnd typing_env k = 2 ^ 52"
  by (simp_all add: typing_env_def)

text \<open>
  The claim as stated fails where \<^verbatim>\<open>element.input\<close> raises and \<^verbatim>\<open>element.type\<close> does
  not: for the text "bb" there are four character calls, not two; the first b is tried
  again after its input failed, and the second b is input all the same.
\<close>

theorem human_type_retries_with_type:
  "human_type typing_env (JStr ''field'') (JStr ''bb'') 50 200 initial_world =
     (Inr (),
      initial_world\<lparr>rcount := 4,
        trace := [Call ''element.input'' [JStr ''field'', JStr ''b''],
                  Call ''element.type'' [JStr ''field'', JStr ''b''],
                  Sleep (1 / 8),
                  Call ''element.input'' [JStr ''field'', JStr ''b''],
                  Call ''element.type'' [JStr ''field'', JStr ''b''],
                  Sleep (1 / 8)]\<rparr>)"
  by (simp add: human_type_def bnd_def lift_def type_step_def Let_def call_def type_pause_def
      py_random_def uniform_def ret_def py_sleep_def initial_world_def typing_env_simps)

theorem human_type_calls_witness:
  "(0::real) \<le> 50 \<and> (50::real) \<le> 200 \<and>
   (\<exists>os. typing_run typing_env (JStr ''field'') 50 200 (trace initial_world) ''abca'' os \<and>
         length os \<le> length ''abca'' \<and>
         human_type typing_env (JStr ''field'') (JStr ''abca'') 50 200 initial_world =
           (Inr (), initial_world\<lparr>rcount := rcount initial_world + 2 * length (filter accepted os),
              trace := trace initial_world @
                concat (map2 (outcome_events (JStr ''field'')) ''abca'' os)\<rparr>)) \<and>
   typing_run typing_env (JStr ''field'') 50 200 (trace initial_world) ''abca''
     [Typed (1 / 8), Retyped (1 / 8), Rejected]"
proof -
  have lo: "(0::real) \<le> 50" and hi: "(50::real) \<le> 200"
    by simp_all
  have run: "typing_run typing_env (JStr ''field'') 50 200 (trace initial_world) ''abca''
     [Typed (1 / 8), Retyped (1 / 8), Rejected]"
    by (simp add: typing_env_simps delay_ok_def)
  show ?thesis
    by (intro conjI lo hi human_type_calls[OF lo hi] run)
qed

end
